theory Spec2Isabelle
  imports Main "HOL-Library.Word"
begin

section \<open>Service lifecycle and process control (services/serviceconfig.go)\<close>

text \<open>
  A shallow embedding of the lifecycle operations of \<^verbatim>\<open>ServiceConfig\<close>:
  \<^verbatim>\<open>GetCommand\<close>, \<^verbatim>\<open>Status\<close>, \<^verbatim>\<open>Stop\<close> with its three escalation steps,
  the port discovery of \<^verbatim>\<open>getPorts\<close>/\<^verbatim>\<open>doGetPorts\<close>, \<^verbatim>\<open>getLogCounts\<close>, and
  \<^verbatim>\<open>Build\<close>/\<^verbatim>\<open>Launch\<close>/\<^verbatim>\<open>Start\<close>.

  The operating system and the libraries the code calls (gopsutil, syscall, encoding/json,
  path) are a record of oracles. Every oracle that the code may call more than once takes
  the value of a clock, which the model advances at every call, so that two calls of the
  same function may answer differently (a process that is alive now and gone later).
  Everything the code changes is in the record \<open>world\<close>: the clock, the files, the
  package-level connection cache and a trace of the effects on the system.
  Logging through \<^verbatim>\<open>c.printf\<close> is not modelled.
\<close>

subsection \<open>Errors\<close>

text \<open>
  \<^verbatim>\<open>errors.New\<close> makes a new error from a message, \<^verbatim>\<open>errors.WithStack\<close> wraps an
  error with the call stack (and maps \<^verbatim>\<open>nil\<close> to \<^verbatim>\<open>nil\<close>); an error that comes from
  the system or from a library is \<open>External\<close>.
\<close>

datatype error = New string | External string | WithStack error

fun WithStack_opt :: "error option \<Rightarrow> error option" where
  "WithStack_opt None = None"
| "WithStack_opt (Some e) = Some (WithStack e)"

subsection \<open>Integers and strings of the Go library\<close>

type_synonym int32 = "32 word"
type_synonym uint32 = "32 word"

text \<open>The conversion \<^verbatim>\<open>int32(x)\<close> of a Go \<^verbatim>\<open>int\<close> keeps the low 32 bits.\<close>

definition to_int32 :: "int \<Rightarrow> int32" where
  "to_int32 x = word_of_int x"

definition is_digit :: "char \<Rightarrow> bool" where
  "is_digit ch = (48 \<le> (of_char ch :: nat) \<and> (of_char ch :: nat) \<le> 57)"

definition digit_value :: "char \<Rightarrow> nat" where
  "digit_value ch = of_char ch - 48"

fun digits_value :: "nat \<Rightarrow> string \<Rightarrow> nat" where
  "digits_value acc [] = acc"
| "digits_value acc (ch # s) = digits_value (10 * acc + digit_value ch) s"

text \<open>
  \<^verbatim>\<open>strconv.Atoi\<close>: an optional sign, then one or more decimal digits; a syntax error
  otherwise, a range error when the value does not fit the 64-bit \<^verbatim>\<open>int\<close>.
\<close>

definition Atoi :: "string \<Rightarrow> error + int" where
  "Atoi s =
     (let neg = (s \<noteq> [] \<and> hd s = CHR ''-'');
          ds = (if s \<noteq> [] \<and> (hd s = CHR ''+'' \<or> hd s = CHR ''-'') then tl s else s)
      in if ds = [] \<or> \<not> list_all is_digit ds then Inl (External ''strconv.Atoi: invalid syntax'')
         else let n = int (digits_value 0 ds)
              in if neg then (if n > 2 ^ 63 then Inl (External ''strconv.Atoi: value out of range'')
                              else Inr (- n))
                 else (if n \<ge> 2 ^ 63 then Inl (External ''strconv.Atoi: value out of range'')
                       else Inr n))"

definition digit_char :: "nat \<Rightarrow> char" where
  "digit_char d = ''0123456789'' ! d"

fun nat_digits :: "nat \<Rightarrow> string" where
  "nat_digits n = (if n < 10 then [digit_char n] else nat_digits (n div 10) @ [digit_char (n mod 10)])"

declare nat_digits.simps [simp del]

text \<open>\<^verbatim>\<open>strconv.Itoa\<close>: the decimal text of an \<^verbatim>\<open>int\<close>.\<close>

definition Itoa :: "int \<Rightarrow> string" where
  "Itoa i = (if i < 0 then CHR ''-'' # nat_digits (nat (- i)) else nat_digits (nat i))"

text \<open>\<^verbatim>\<open>strings.Contains\<close>: \<open>sub\<close> occurs in \<open>s\<close> as a contiguous run.\<close>

fun has_prefix :: "string \<Rightarrow> string \<Rightarrow> bool" where
  "has_prefix s [] = True"
| "has_prefix [] (c # sub) = False"
| "has_prefix (d # s) (c # sub) = (d = c \<and> has_prefix s sub)"

fun Contains :: "string \<Rightarrow> string \<Rightarrow> bool" where
  "Contains [] sub = (sub = [])"
| "Contains (d # s) sub = (has_prefix (d # s) sub \<or> Contains s sub)"

text \<open>Go's integer division truncates towards zero.\<close>

definition go_div :: "int \<Rightarrow> int \<Rightarrow> int" where
  "go_div a b = sgn a * sgn b * (\<bar>a\<bar> div \<bar>b\<bar>)"

subsection \<open>The data of a service\<close>

record LaunchChecks =
  LogText :: string
  Ports :: "int list"

record ServiceConfigCommands =
  cmd_Build :: string
  cmd_Launch :: string
  cmd_Stop :: string

record ServiceConfig =
  Name :: string
  Path :: "string option"
  RequiresSudo :: bool
  Commands :: ServiceConfigCommands
  LaunchChecks :: "LaunchChecks option"
  Env :: "string list"
  Platform :: string

text \<open>
  The type \<^verbatim>\<open>ServiceCommand\<close> is declared outside the file: the fields that
  \<^verbatim>\<open>GetCommand\<close> sets and \<^verbatim>\<open>Stop\<close> and \<^verbatim>\<open>Status\<close> read (the logger apart).
\<close>

record ServiceCommand =
  Service :: ServiceConfig
  Pid :: int

text \<open>
  Modelled from the spec: the type \<^verbatim>\<open>OperationConfig\<close> and its method
  \<^verbatim>\<open>IsExcluded\<close> are declared outside the file. The spec speaks of a service
  "excluded from the current operation set"; services are keyed by name.
\<close>

record OperationConfig =
  Exclusions :: "string list"

definition IsExcluded :: "OperationConfig \<Rightarrow> ServiceConfig \<Rightarrow> bool" where
  "IsExcluded cfg c = (Name c \<in> set (Exclusions cfg))"

datatype signal = SIGINT | SIGKILL

text \<open>
  A handle of gopsutil's \<^verbatim>\<open>process.Process\<close>: the pid, and what \<^verbatim>\<open>Children()\<close>
  answers on it (an error when the process has finished or has no children). The process
  tree of an operating system has no cycle, so the handle carries the finite tree below it.
\<close>

datatype Process = Process (proc_Pid: int32) (proc_Children: "error + Process list")

record ConnectionStat =
  conn_Status :: string
  Laddr_Port :: uint32
  conn_Pid :: int32

datatype StatusKind = StatusStopped | StatusRunning

record ServiceStatus =
  st_Service :: ServiceConfig
  st_Status :: StatusKind
  st_Pid :: int
  StartTime :: "int option"
  st_Ports :: "string list"
  StdoutCount :: int
  StderrCount :: int

subsection \<open>The world\<close>

text \<open>What the code does to the system, in the order it does it.\<close>

datatype effect =
    SendSignal int32 signal
  | KillGroupSignal int
  | FetchConnections
  | RemoveFile string

text \<open>
  \<open>files\<close> holds the pid records by path: a file that is there is read with an error or
  gives its content. \<open>logs\<close> is what opening a log file gives: an error, or the lines the
  scanner yields. \<open>connectionsCache\<close> is the package-level variable of that name.
\<close>

record world =
  clock :: nat
  files :: "string \<rightharpoonup> (error + string)"
  logs :: "string \<Rightarrow> error + string list"
  connectionsCache :: "ConnectionStat list"
  trace :: "effect list"

definition tick :: "world \<Rightarrow> world" where
  "tick w = w\<lparr>clock := Suc (clock w)\<rparr>"

definition emit :: "effect \<Rightarrow> world \<Rightarrow> world" where
  "emit ev w = w\<lparr>trace := trace w @ [ev]\<rparr>"

record os =
  os_PidExists :: "nat \<Rightarrow> int32 \<Rightarrow> error + bool"
  os_NewProcess :: "nat \<Rightarrow> int32 \<Rightarrow> error + (error + Process list)"
  os_Cmdline :: "nat \<Rightarrow> int32 \<Rightarrow> error + string"
  os_CreateTime :: "nat \<Rightarrow> int32 \<Rightarrow> error + int"
  os_SendSignal :: "nat \<Rightarrow> int32 \<Rightarrow> signal \<Rightarrow> error option"
  os_Getpgid :: "nat \<Rightarrow> int \<Rightarrow> error + int"
  os_KillGroup :: "nat \<Rightarrow> int \<Rightarrow> error option"
  os_Connections :: "nat \<Rightarrow> ConnectionStat list \<times> error option"
  os_Unmarshal :: "string \<Rightarrow> string \<Rightarrow> error option \<times> string"
  os_BuildSync :: "ServiceCommand \<Rightarrow> world \<Rightarrow> error option \<times> world"
  os_StartAsync :: "ServiceCommand \<Rightarrow> OperationConfig \<Rightarrow> world \<Rightarrow> error option \<times> world"
  path_Join :: "string \<Rightarrow> string \<Rightarrow> string"
  LogDir :: string
  PidDir :: string

text \<open>
  \<^verbatim>\<open>process.NewProcess(pid)\<close>: an error, or the handle of that pid.
\<close>

definition NewProcess :: "os \<Rightarrow> nat \<Rightarrow> int32 \<Rightarrow> error + Process" where
  "NewProcess os t pid =
     (case os_NewProcess os t pid of Inl e \<Rightarrow> Inl e | Inr kids \<Rightarrow> Inr (Process pid kids))"

subsection \<open>The persisted identity\<close>

text \<open>
  Modelled from the spec: \<^verbatim>\<open>getPidPath\<close> is a method of \<^verbatim>\<open>ServiceCommand\<close>,
  declared outside the file. The spec: "one process-identifier record per service, keyed
  by service name, stored at a well-known per-tool directory".
\<close>

definition getPidPath :: "os \<Rightarrow> ServiceCommand \<Rightarrow> string" where
  "getPidPath os command = path_Join os (PidDir os) (Name (Service command) @ ''.pid'')"

text \<open>
  Modelled from the spec: \<^verbatim>\<open>clearState\<close> is a method of \<^verbatim>\<open>ServiceCommand\<close>,
  declared outside the file. The spec: "clear persisted state and delete the process's
  declared pid record", after which the service is "treated as stopped", that is its pid is
  "the zero/unset value".
\<close>

definition clearState :: "os \<Rightarrow> ServiceCommand \<Rightarrow> world \<Rightarrow> ServiceCommand \<times> world" where
  "clearState os command w =
     (command\<lparr>Pid := 0\<rparr>,
      emit (RemoveFile (getPidPath os command)) (w\<lparr>files := (files w)(getPidPath os command := None)\<rparr>))"

text \<open>\<^verbatim>\<open>GetRunLog\<close>: the path of the run log of the service.\<close>

definition GetRunLog :: "os \<Rightarrow> ServiceConfig \<Rightarrow> string" where
  "GetRunLog os c = path_Join os (LogDir os) (Name c @ ''.log'')"

text \<open>
  \<^verbatim>\<open>GetCommand\<close>. After \<^verbatim>\<open>clearState\<close> in the branch of a process that does not exist,
  the source goes on to \<^verbatim>\<open>process.NewProcess\<close> and \<^verbatim>\<open>Cmdline\<close> with the pid of the
  command, and so does the model.
\<close>

definition GetCommand :: "os \<Rightarrow> ServiceConfig \<Rightarrow> world \<Rightarrow> (error + ServiceCommand) \<times> world" where
  "GetCommand os c w =
     (let command = \<lparr>Service = c, Pid = 0\<rparr>;
          pidFile = getPidPath os command
      in case files w pidFile of
           None \<Rightarrow> (Inr command, w)
         | Some (Inl e) \<Rightarrow> (Inl (WithStack e), w)
         | Some (Inr dat) \<Rightarrow>
            (case Atoi dat of
               Inl e \<Rightarrow> (Inl (WithStack e), w)
             | Inr pid \<Rightarrow>
                (let command = command\<lparr>Pid := pid\<rparr>
                 in case os_PidExists os (clock w) (to_int32 (Pid command)) of
                      Inl e \<Rightarrow> (Inl (WithStack e), tick w)
                    | Inr exists \<Rightarrow>
                       (let (command, w1) =
                              (if \<not> exists then clearState os command (tick w)
                               else (command, tick w))
                        in case NewProcess os (clock w1) (to_int32 (Pid command)) of
                             Inl e \<Rightarrow> (Inl (WithStack e), tick w1)
                           | Inr proc \<Rightarrow>
                              (case os_Cmdline os (clock (tick w1)) (proc_Pid proc) of
                                 Inl e \<Rightarrow> (Inl (WithStack e), tick (tick w1))
                               | Inr cmdline \<Rightarrow>
                                  (if \<not> Contains cmdline (Name c)
                                   then (case clearState os command (tick (tick w1)) of
                                           (command', w2) \<Rightarrow> (Inr command', w2))
                                   else (Inr command, tick (tick w1))))))))"

subsection \<open>Stopping a service\<close>

text \<open>
  The type \<^verbatim>\<open>CommandTracker\<close> is declared outside the file. \<^verbatim>\<open>Stop\<close> reports its
  outcome through one of \<^verbatim>\<open>tracker.Success\<close>, \<^verbatim>\<open>tracker.SoftFail\<close> and
  \<^verbatim>\<open>tracker.Fail\<close>; the model returns which, beside the error that \<^verbatim>\<open>Stop\<close>
  returns to its caller.
\<close>

datatype tracker_outcome = Success | SoftFail error | Fail error

type_synonym Duration = int

definition Millisecond :: Duration where
  "Millisecond = 1000000"

definition Second :: Duration where
  "Second = 1000000000"

definition interruptProcess ::
  "os \<Rightarrow> OperationConfig \<Rightarrow> ServiceCommand \<Rightarrow> world \<Rightarrow> (bool \<times> error option) \<times> world" where
  "interruptProcess os cfg command w =
     (case NewProcess os (clock w) (to_int32 (Pid command)) of
        Inl err \<Rightarrow> ((False, Some (WithStack err)), tick w)
      | Inr p \<Rightarrow>
         (let w1 = tick (emit (SendSignal (proc_Pid p) SIGINT) (tick w))
          in case os_SendSignal os (clock (tick w)) (proc_Pid p) SIGINT of
               Some err \<Rightarrow> ((False, Some (WithStack err)), w1)
             | None \<Rightarrow>
                (case os_PidExists os (clock w1) (to_int32 (Pid command)) of
                   Inl err \<Rightarrow> ((False, Some (WithStack err)), tick w1)
                 | Inr exists \<Rightarrow> ((\<not> exists, None), tick w1))))"

text \<open>
  Modelled from the spec: \<^verbatim>\<open>KillGroup\<close> is declared outside the file. The spec: "send a
  forceful termination signal to the entire process group"; the call can fail.
\<close>

definition KillGroup ::
  "os \<Rightarrow> OperationConfig \<Rightarrow> int \<Rightarrow> ServiceConfig \<Rightarrow> world \<Rightarrow> error option \<times> world" where
  "KillGroup os cfg pgid c w = (os_KillGroup os (clock w) pgid, tick (emit (KillGroupSignal pgid) w))"

definition killProcess ::
  "os \<Rightarrow> OperationConfig \<Rightarrow> ServiceConfig \<Rightarrow> ServiceCommand \<Rightarrow> world \<Rightarrow> (bool \<times> error option) \<times> world" where
  "killProcess os cfg c command w =
     (case os_Getpgid os (clock w) (Pid command) of
        Inl err \<Rightarrow> ((False, Some (WithStack err)), tick w)
      | Inr pgid \<Rightarrow>
         (if pgid = 0 \<or> pgid = 1
          then ((False, Some (WithStack (New (''suspect pgid: '' @ Itoa pgid)))), tick w)
          else (case KillGroup os cfg pgid c (tick w) of
                  (err, w1) \<Rightarrow> ((True, WithStack_opt err), w1))))"

text \<open>
  The loop of \<^verbatim>\<open>waitForTerm\<close>, from the value \<open>elapsed\<close> of its counter on. The
  call of \<^verbatim>\<open>time.Sleep\<close> advances the clock as a call of the system does.
\<close>

function waitForTerm_loop ::
  "os \<Rightarrow> ServiceCommand \<Rightarrow> Duration \<Rightarrow> Duration \<Rightarrow> world \<Rightarrow> (bool \<times> error option) \<times> world" where
  "waitForTerm_loop os command timeout elapsed w =
     (if elapsed \<le> timeout
      then (case os_PidExists os (clock w) (to_int32 (Pid command)) of
              Inl err \<Rightarrow> ((False, Some (WithStack err)), tick w)
            | Inr exists \<Rightarrow>
               (if \<not> exists then ((True, None), tick w)
                else waitForTerm_loop os command timeout (elapsed + Millisecond * 100)
                       (tick (tick w))))
      else ((False, None), w))"
  by pat_completeness auto
termination
  by (relation "measure (\<lambda>(os, command, timeout, elapsed, w). nat (timeout - elapsed + 1))")
     (auto simp: Millisecond_def)

declare waitForTerm_loop.simps [simp del]

definition waitForTerm ::
  "os \<Rightarrow> ServiceCommand \<Rightarrow> Duration \<Rightarrow> world \<Rightarrow> (bool \<times> error option) \<times> world" where
  "waitForTerm os command timeout w = waitForTerm_loop os command timeout 0 w"

text \<open>
  \<^verbatim>\<open>Stop\<close>: the error returned to the caller, the outcome given to the tracker (none when
  the service is excluded or \<^verbatim>\<open>GetCommand\<close> fails), and the world afterwards.
\<close>

definition Stop ::
  "os \<Rightarrow> OperationConfig \<Rightarrow> ServiceConfig \<Rightarrow> world \<Rightarrow> (error option \<times> tracker_outcome option) \<times> world" where
  "Stop os cfg c w =
     (if IsExcluded cfg c then ((None, None), w)
      else case GetCommand os c w of
             (Inl err, w1) \<Rightarrow> ((Some (WithStack err), None), w1)
           | (Inr command, w1) \<Rightarrow>
              (if Pid command = 0 then ((None, Some (SoftFail (New ''Not running''))), w1)
               else case interruptProcess os cfg command w1 of
                      ((stopped, Some err), w2) \<Rightarrow> ((None, Some (Fail err)), w2)
                    | ((stopped, None), w2) \<Rightarrow>
                       (if \<not> stopped
                        then (case waitForTerm os command (Second * 5) w2 of
                                ((stopped, Some err), w3) \<Rightarrow> ((None, Some (Fail err)), w3)
                              | ((stopped, None), w3) \<Rightarrow>
                                 (if \<not> stopped
                                  then (case killProcess os cfg c command w3 of
                                          ((stopped, Some err), w4) \<Rightarrow> ((None, Some (Fail err)), w4)
                                        | ((stopped, None), w4) \<Rightarrow>
                                           (if stopped
                                            then ((None, Some (SoftFail (New ''Killed''))), w4)
                                            else ((None, Some (Fail (New ''Process was not killed''))), w4)))
                                  else (case clearState os command w3 of
                                          (command', w4) \<Rightarrow> ((None, Some Success), w4))))
                        else (case clearState os command w2 of
                                (command', w3) \<Rightarrow> ((None, Some Success), w3)))))"

subsection \<open>Status: ports and log counts\<close>

text \<open>
  The first statement of \<^verbatim>\<open>doGetPorts\<close>: the cache is fetched when it is empty, and
  the value that \<^verbatim>\<open>net.Connections\<close> returns is assigned to the cache also when it
  returns an error.
\<close>

definition loadConnections :: "os \<Rightarrow> world \<Rightarrow> error option \<times> world" where
  "loadConnections os w =
     (if connectionsCache w = []
      then (snd (os_Connections os (clock w)),
            tick (emit FetchConnections (w\<lparr>connectionsCache := fst (os_Connections os (clock w))\<rparr>)))
      else (None, w))"

text \<open>
  \<^verbatim>\<open>doGetPorts\<close>, with the loop over the children as a second function.
\<close>

fun doGetPorts :: "os \<Rightarrow> ServiceConfig \<Rightarrow> Process \<Rightarrow> world \<Rightarrow> (error + string list) \<times> world"
  and doGetPorts_children ::
    "os \<Rightarrow> ServiceConfig \<Rightarrow> Process list \<Rightarrow> string list \<Rightarrow> world \<Rightarrow> string list \<times> world" where
  "doGetPorts os c (Process pid kids) w =
     (case loadConnections os w of
        (Some err, w1) \<Rightarrow> (Inl (WithStack err), w1)
      | (None, w1) \<Rightarrow>
         (let knownPorts = (case LaunchChecks c of None \<Rightarrow> [] | Some lc \<Rightarrow> Ports lc);
              ports = map (\<lambda>connection. Itoa (uint (Laddr_Port connection)))
                        (filter (\<lambda>connection. conn_Status connection = ''LISTEN''
                                   \<and> conn_Pid connection = pid
                                   \<and> uint (Laddr_Port connection) \<notin> set knownPorts)
                           (connectionsCache w1))
          in case kids of
               Inl err \<Rightarrow> (Inr ports, w1)
             | Inr children \<Rightarrow>
                (case doGetPorts_children os c children ports w1 of
                   (ports', w2) \<Rightarrow> (Inr ports', w2))))"
| "doGetPorts_children os c [] ports w = (ports, w)"
| "doGetPorts_children os c (child # rest) ports w =
     (case doGetPorts os c child w of
        (Inl err, w1) \<Rightarrow> doGetPorts_children os c rest ports w1
      | (Inr childPorts, w1) \<Rightarrow> doGetPorts_children os c rest (ports @ childPorts) w1)"

definition getPorts :: "os \<Rightarrow> ServiceConfig \<Rightarrow> Process \<Rightarrow> world \<Rightarrow> (error + string list) \<times> world" where
  "getPorts os c proc w =
     (case doGetPorts os c proc w of
        (Inl err, w1) \<Rightarrow> (Inl (WithStack err), w1)
      | (Inr ports, w1) \<Rightarrow>
         (Inr (ports @ (case LaunchChecks c of None \<Rightarrow> [] | Some lc \<Rightarrow> map Itoa (Ports lc))), w1))"

text \<open>
  The loop of \<^verbatim>\<open>getLogCounts\<close> over the lines of the log. \<^verbatim>\<open>lineData\<close> is declared
  before the loop, so a line is decoded into what the lines before it left there: the
  decoder gets the text and the current \<^verbatim>\<open>Stream\<close>, and gives its error and the new
  \<^verbatim>\<open>Stream\<close>.
\<close>

fun scan_lines :: "os \<Rightarrow> string list \<Rightarrow> int \<times> int \<times> string \<Rightarrow> int \<times> int" where
  "scan_lines os [] (stdoutCount, stderrCount, stream) = (stdoutCount, stderrCount)"
| "scan_lines os (text # rest) (stdoutCount, stderrCount, stream) =
     (case os_Unmarshal os text stream of
        (Some err, stream') \<Rightarrow> scan_lines os rest (stdoutCount, stderrCount, stream')
      | (None, stream') \<Rightarrow>
         scan_lines os rest
           (if stream' = ''stdout'' then stdoutCount + 1 else stdoutCount,
            if stream' = ''stderr'' then stderrCount + 1 else stderrCount,
            stream'))"

definition getLogCounts :: "os \<Rightarrow> ServiceConfig \<Rightarrow> world \<Rightarrow> int \<times> int" where
  "getLogCounts os c w =
     (case logs w (GetRunLog os c) of
        Inl err \<Rightarrow> (0, 0)
      | Inr lines \<Rightarrow> scan_lines os lines (0, 0, []))"

text \<open>
  \<^verbatim>\<open>Status\<close>. The start time is \<^verbatim>\<open>time.Unix(epochStart/1000, 0)\<close>, in seconds; a
  stopped service has none.
\<close>

definition Status :: "os \<Rightarrow> ServiceConfig \<Rightarrow> world \<Rightarrow> (error + ServiceStatus list) \<times> world" where
  "Status os c w =
     (case GetCommand os c w of
        (Inl err, w1) \<Rightarrow> (Inl (WithStack err), w1)
      | (Inr command, w1) \<Rightarrow>
         (let status = \<lparr>st_Service = c, st_Status = StatusStopped, st_Pid = 0, StartTime = None,
                        st_Ports = [], StdoutCount = 0, StderrCount = 0\<rparr>
          in if Pid command \<noteq> 0
             then (case NewProcess os (clock w1) (to_int32 (Pid command)) of
                     Inl err \<Rightarrow> (Inl (WithStack err), tick w1)
                   | Inr proc \<Rightarrow>
                      (case os_CreateTime os (clock (tick w1)) (proc_Pid proc) of
                         Inl err \<Rightarrow> (Inl (WithStack err), tick (tick w1))
                       | Inr epochStart \<Rightarrow>
                          (case getPorts os c proc (tick (tick w1)) of
                             (r, w2) \<Rightarrow>
                               (case getLogCounts os c w2 of
                                  (so, se) \<Rightarrow>
                                    (case r of
                                       Inl err \<Rightarrow> (Inl (WithStack err), w2)
                                     | Inr ports \<Rightarrow>
                                        (Inr [status\<lparr>st_Status := StatusRunning, st_Pid := Pid command,
                                                StartTime := Some (go_div epochStart 1000),
                                                st_Ports := ports, StdoutCount := so,
                                                StderrCount := se\<rparr>], w2))))))
             else (Inr [status], w1)))"

subsection \<open>Building and launching\<close>

definition Build :: "os \<Rightarrow> OperationConfig \<Rightarrow> ServiceConfig \<Rightarrow> world \<Rightarrow> error option \<times> world" where
  "Build os cfg c w =
     (if IsExcluded cfg c then (None, w)
      else case GetCommand os c w of
             (Inl err, w1) \<Rightarrow> (Some (WithStack err), w1)
           | (Inr command, w1) \<Rightarrow>
              (case os_BuildSync os command w1 of (err, w2) \<Rightarrow> (WithStack_opt err, w2)))"

definition Launch :: "os \<Rightarrow> OperationConfig \<Rightarrow> ServiceConfig \<Rightarrow> world \<Rightarrow> error option \<times> world" where
  "Launch os cfg c w =
     (if IsExcluded cfg c then (None, w)
      else case GetCommand os c w of
             (Inl err, w1) \<Rightarrow> (Some (WithStack err), w1)
           | (Inr command, w1) \<Rightarrow>
              (case os_StartAsync os command cfg w1 of (err, w2) \<Rightarrow> (WithStack_opt err, w2)))"

definition Start :: "os \<Rightarrow> OperationConfig \<Rightarrow> ServiceConfig \<Rightarrow> world \<Rightarrow> error option \<times> world" where
  "Start os cfg c w =
     (if IsExcluded cfg c then (None, w)
      else case Build os cfg c w of
             (Some err, w1) \<Rightarrow> (Some (WithStack err), w1)
           | (None, w1) \<Rightarrow>
              (case Launch os cfg c w1 of (err, w2) \<Rightarrow> (WithStack_opt err, w2)))"

subsection \<open>Reading the trace\<close>

fun is_signal :: "effect \<Rightarrow> bool" where
  "is_signal (SendSignal pid sig) = True"
| "is_signal (KillGroupSignal pgid) = True"
| "is_signal FetchConnections = False"
| "is_signal (RemoveFile path) = False"

fun is_kill :: "effect \<Rightarrow> bool" where
  "is_kill (SendSignal pid sig) = (sig = SIGKILL)"
| "is_kill (KillGroupSignal pgid) = True"
| "is_kill FetchConnections = False"
| "is_kill (RemoveFile path) = False"

definition signals_sent :: "world \<Rightarrow> effect list" where
  "signals_sent w = filter is_signal (trace w)"

definition kills_sent :: "world \<Rightarrow> effect list" where
  "kills_sent w = filter is_kill (trace w)"

definition fetches :: "world \<Rightarrow> nat" where
  "fetches w = length (filter (\<lambda>ev. ev = FetchConnections) (trace w))"

text \<open>The status of a stopped service, as \<^verbatim>\<open>Status\<close> builds it.\<close>

definition stopped_status :: "ServiceConfig \<Rightarrow> ServiceStatus" where
  "stopped_status c =
     \<lparr>st_Service = c, st_Status = StatusStopped, st_Pid = 0, StartTime = None,
      st_Ports = [], StdoutCount = 0, StderrCount = 0\<rparr>"

subsection \<open>Port discovery, as the spec words it\<close>

text \<open>
  The ports declared by the launch check, the listening ports of one pid in a connection
  table, and the listening ports of a process and its descendants that are not declared:
  the children of a process whose children cannot be listed add nothing.
\<close>

definition declared_ports :: "ServiceConfig \<Rightarrow> int list" where
  "declared_ports c = (case LaunchChecks c of None \<Rightarrow> [] | Some lc \<Rightarrow> Ports lc)"

definition listening_ports :: "ConnectionStat list \<Rightarrow> int32 \<Rightarrow> int list" where
  "listening_ports table pid =
     map (\<lambda>connection. uint (Laddr_Port connection))
       (filter (\<lambda>connection. conn_Status connection = ''LISTEN'' \<and> conn_Pid connection = pid) table)"

fun tree_pids :: "Process \<Rightarrow> int32 list" where
  "tree_pids (Process pid kids) =
     pid # (case kids of Inl err \<Rightarrow> [] | Inr children \<Rightarrow> concat (map tree_pids children))"

definition discovered_ports :: "ConnectionStat list \<Rightarrow> int list \<Rightarrow> Process \<Rightarrow> int list" where
  "discovered_ports table known proc =
     filter (\<lambda>port. port \<notin> set known) (concat (map (listening_ports table) (tree_pids proc)))"

subsection \<open>Sample systems\<close>

text \<open>
  A system with the pid records under \<open>pids\<close> and the logs under \<open>logs\<close>. \<open>alive\<close> says
  which pids have a process at which time; a lookup or a signal on a pid that has none
  fails, as it does on Linux. Every process has the command line \<open>cmdline\<close> and the
  process group \<open>pgid\<close>, and \<open>kids\<close> gives the children of a pid.
\<close>

text \<open>
  A decoder for the lines of the samples, answering as \<^verbatim>\<open>json.Unmarshal\<close> does on
  them: a record sets \<^verbatim>\<open>Stream\<close>; \<^verbatim>\<open>null\<close> and an object without the field
  \<^verbatim>\<open>Stream\<close> decode without error and leave \<^verbatim>\<open>Stream\<close> as it was; other text is
  rejected.
\<close>

definition sample_Unmarshal :: "string \<Rightarrow> string \<Rightarrow> error option \<times> string" where
  "sample_Unmarshal text stream =
     (if text = ''{\"Stream\":\"stdout\"}'' then (None, ''stdout'')
      else if text = ''{\"Stream\":\"stderr\"}'' then (None, ''stderr'')
      else if text = ''{}'' \<or> text = ''null'' then (None, stream)
      else (Some (External ''invalid character''), stream))"

definition sample_os ::
  "(nat \<Rightarrow> int32 \<Rightarrow> bool) \<Rightarrow> string \<Rightarrow> int \<Rightarrow> (int32 \<Rightarrow> error + Process list)
     \<Rightarrow> (nat \<Rightarrow> ConnectionStat list \<times> error option) \<Rightarrow> os" where
  "sample_os alive cmdline pgid kids conns =
     \<lparr>os_PidExists = (\<lambda>t pid. Inr (alive t pid)),
      os_NewProcess = (\<lambda>t pid. if alive t pid then Inr (kids pid)
                                else Inl (External ''no such process'')),
      os_Cmdline = (\<lambda>t pid. if alive t pid then Inr cmdline
                             else Inl (External ''no such process'')),
      os_CreateTime = (\<lambda>t pid. if alive t pid then Inr 1500000000000
                                else Inl (External ''no such process'')),
      os_SendSignal = (\<lambda>t pid sig. if alive t pid then None
                                    else Some (External ''no such process'')),
      os_Getpgid = (\<lambda>t pid. Inr pgid),
      os_KillGroup = (\<lambda>t pgid. None),
      os_Connections = conns,
      os_Unmarshal = sample_Unmarshal,
      os_BuildSync = (\<lambda>command w. (None, w)),
      os_StartAsync = (\<lambda>command cfg w. (None, w)),
      path_Join = (\<lambda>dir file. dir @ ''/'' @ file),
      LogDir = ''logs'',
      PidDir = ''pids''\<rparr>"

definition no_kids :: "int32 \<Rightarrow> error + Process list" where
  "no_kids pid = Inl (External ''no children'')"

definition api :: ServiceConfig where
  "api = \<lparr>Name = ''api'', Path = None, RequiresSudo = False,
          Commands = \<lparr>cmd_Build = ''make'', cmd_Launch = ''./api'', cmd_Stop = []\<rparr>,
          LaunchChecks = Some \<lparr>LogText = [], Ports = [8080]\<rparr>, Env = [], Platform = []\<rparr>"

definition all_services :: OperationConfig where
  "all_services = \<lparr>Exclusions = []\<rparr>"

definition without_api :: OperationConfig where
  "without_api = \<lparr>Exclusions = [''api'']\<rparr>"

text \<open>A world at time 0 with the given pid records, no log and an empty cache.\<close>

definition world0 :: "(string \<rightharpoonup> (error + string)) \<Rightarrow> world" where
  "world0 fs = \<lparr>clock = 0, files = fs, logs = (\<lambda>path. Inl (External ''no such file'')),
               connectionsCache = [], trace = []\<rparr>"

text \<open>The pid record of \<open>api\<close> names pid 4242.\<close>

definition api_recorded :: world where
  "api_recorded = world0 [''pids/api.pid'' \<mapsto> Inr ''4242'']"

text \<open>
  The same world with a log of \<open>api\<close>: one record of the standard output, then the
  lines \<^verbatim>\<open>null\<close> and \<^verbatim>\<open>{}\<close>, which are no records of the log.
\<close>

definition api_logged :: world where
  "api_logged =
     api_recorded\<lparr>logs := (\<lambda>path. if path = ''logs/api.log''
                                  then Inr [''{\"Stream\":\"stdout\"}'', ''null'', ''{}'']
                                  else Inl (External ''no such file''))\<rparr>"

text \<open>
  A process that ignores the interrupt: the process of \<open>api\<close>, in the process group
  \<open>pgid\<close>. It is there until time 110, just after the moment at which \<^verbatim>\<open>Stop\<close>,
  called at time 0, sends the kill signal.
\<close>

definition stubborn_os :: "int \<Rightarrow> os" where
  "stubborn_os pgid = sample_os (\<lambda>t pid. t < 110) ''./api'' pgid no_kids (\<lambda>t. ([], None))"


definition failing_kill_os :: os where
  "failing_kill_os = (stubborn_os 4242)\<lparr>os_KillGroup := (\<lambda>t pgid. Some (External ''exit status 1''))\<rparr>"

text \<open>The same system with a build command that fails, and a launcher to tell apart.\<close>

definition failing_build_os :: os where
  "failing_build_os = (stubborn_os 4242)\<lparr>os_BuildSync := (\<lambda>command w. (Some (External ''exit status 2''), w))\<rparr>"

definition failing_launcher :: "ServiceCommand \<Rightarrow> OperationConfig \<Rightarrow> world \<Rightarrow> error option \<times> world" where
  "failing_launcher command cfg w = (Some (External ''service did not start''), tick w)"

text \<open>
  A service with two children: the process 4242 of \<open>api\<close> listens on nothing; its child
  4243 listens on 9090 twice (the IPv4 and the IPv6 socket), its child 4244 on the declared
  port 8080 and on 9091. The table also holds a connection of 4242 that is not listening
  and the socket of a process outside the tree.
\<close>

definition listen :: "uint32 \<Rightarrow> int32 \<Rightarrow> ConnectionStat" where
  "listen port pid = \<lparr>conn_Status = ''LISTEN'', Laddr_Port = port, conn_Pid = pid\<rparr>"

definition family_table :: "ConnectionStat list" where
  "family_table =
     [listen 9090 4243, listen 9090 4243, listen 8080 4244, listen 9091 4244,
      \<lparr>conn_Status = ''ESTABLISHED'', Laddr_Port = 51000, conn_Pid = 4242\<rparr>, listen 22 1]"

definition family_kids :: "int32 \<Rightarrow> error + Process list" where
  "family_kids pid =
     (if pid = 4242 then Inr [Process 4243 (Inl (External ''no children'')),
                              Process 4244 (Inl (External ''no children''))]
      else Inl (External ''no children''))"

definition family_os :: os where
  "family_os = sample_os (\<lambda>t pid. True) ''./api'' 4242 family_kids (\<lambda>t. (family_table, None))"

text \<open>
  Two systems on which the pid record of \<open>api\<close> is stale: one where no process has the
  recorded pid, and one where the pid belongs to another program.
\<close>

definition dead_os :: os where
  "dead_os = sample_os (\<lambda>t pid. False) ''./api'' 4242 no_kids (\<lambda>t. ([], None))"

definition reused_pid_os :: os where
  "reused_pid_os = sample_os (\<lambda>t pid. pid = 4242) ''/usr/sbin/sshd -D'' 4242 no_kids (\<lambda>t. ([], None))"

section \<open>Properties\<close>

subsection \<open>Bookkeeping\<close>

lemma trace_tick [simp]: "trace (tick w) = trace w"
  by (simp add: tick_def)

lemma files_tick [simp]: "files (tick w) = files w"
  by (simp add: tick_def)

lemma cache_tick [simp]: "connectionsCache (tick w) = connectionsCache w"
  by (simp add: tick_def)

lemma logs_tick [simp]: "logs (tick w) = logs w"
  by (simp add: tick_def)

lemma clock_tick [simp]: "clock (tick w) = Suc (clock w)"
  by (simp add: tick_def)

lemma signals_sent_tick [simp]: "signals_sent (tick w) = signals_sent w"
  by (simp add: signals_sent_def)

lemma kills_sent_tick [simp]: "kills_sent (tick w) = kills_sent w"
  by (simp add: kills_sent_def)

lemma fetches_tick [simp]: "fetches (tick w) = fetches w"
  by (simp add: fetches_def)

lemma clearState_facts:
  "clearState os command w = (command', w') \<Longrightarrow>
     Pid command' = 0 \<and> Service command' = Service command
     \<and> files w' = (files w)(getPidPath os command := None)
     \<and> trace w' = trace w @ [RemoveFile (getPidPath os command)]
     \<and> connectionsCache w' = connectionsCache w \<and> logs w' = logs w \<and> clock w' = clock w"
  by (auto simp: clearState_def emit_def)

lemma GetCommand_signals: "signals_sent (snd (GetCommand os c w)) = signals_sent w"
  by (auto simp: GetCommand_def Let_def clearState_def emit_def signals_sent_def
           split: option.splits sum.splits prod.splits if_splits)

lemma GetCommand_kills: "kills_sent (snd (GetCommand os c w)) = kills_sent w"
  by (auto simp: GetCommand_def Let_def clearState_def emit_def kills_sent_def
           split: option.splits sum.splits prod.splits if_splits)

lemma GetCommand_cache: "connectionsCache (snd (GetCommand os c w)) = connectionsCache w"
  by (auto simp: GetCommand_def Let_def clearState_def emit_def
           split: option.splits sum.splits prod.splits if_splits)

lemma GetCommand_fetches: "fetches (snd (GetCommand os c w)) = fetches w"
  by (auto simp: GetCommand_def Let_def clearState_def emit_def fetches_def
           split: option.splits sum.splits prod.splits if_splits)

lemma GetCommand_logs: "logs (snd (GetCommand os c w)) = logs w"
  by (auto simp: GetCommand_def Let_def clearState_def emit_def
           split: option.splits sum.splits prod.splits if_splits)

lemma GetCommand_Service: "GetCommand os c w = (Inr command, w1) \<Longrightarrow> Service command = c"
  by (auto simp: GetCommand_def Let_def clearState_def emit_def
           split: option.splits sum.splits prod.splits if_splits)

lemma GetCommand_no_file:
  "files w (getPidPath os \<lparr>Service = c, Pid = 0\<rparr>) = None \<Longrightarrow>
     GetCommand os c w = (Inr \<lparr>Service = c, Pid = 0\<rparr>, w)"
  by (simp add: GetCommand_def Let_def)

lemma waitForTerm_loop_world:
  "trace (snd (waitForTerm_loop os command timeout elapsed w)) = trace w
   \<and> files (snd (waitForTerm_loop os command timeout elapsed w)) = files w
   \<and> connectionsCache (snd (waitForTerm_loop os command timeout elapsed w)) = connectionsCache w"
proof (induction os command timeout elapsed w rule: waitForTerm_loop.induct)
  case (1 os command timeout elapsed w)
  show ?case
    using "1.IH"
    by (subst (1 2 3) waitForTerm_loop.simps) (auto split: sum.splits)
qed

lemmas sample_defs = sample_os_def api_def world0_def api_recorded_def all_services_def
  without_api_def no_kids_def sample_Unmarshal_def stubborn_os_def

lemmas eval_defs = GetCommand_def getPidPath_def Atoi_def is_digit_def digit_value_def
  clearState_def tick_def emit_def NewProcess_def to_int32_def IsExcluded_def
  interruptProcess_def killProcess_def KillGroup_def waitForTerm_def Second_def Millisecond_def

subsection \<open>The steps of Stop\<close>

lemma interruptProcess_kills: "kills_sent (snd (interruptProcess os cfg command w)) = kills_sent w"
  by (auto simp: interruptProcess_def Let_def emit_def kills_sent_def split: sum.splits option.splits)

lemma waitForTerm_kills: "kills_sent (snd (waitForTerm os command timeout w)) = kills_sent w"
  by (simp add: waitForTerm_def kills_sent_def waitForTerm_loop_world)

lemma killProcess_Getpgid:
  "os_Getpgid os (clock w) (Pid command) = Inr pgid \<Longrightarrow>
     killProcess os cfg c command w =
       (if pgid = 0 \<or> pgid = 1
        then ((False, Some (WithStack (New (''suspect pgid: '' @ Itoa pgid)))), tick w)
        else ((True, WithStack_opt (os_KillGroup os (Suc (clock w)) pgid)),
              tick (emit (KillGroupSignal pgid) (tick w))))"
  by (simp add: killProcess_def KillGroup_def)

lemma kills_sent_emit: "kills_sent (emit ev w) = kills_sent w @ (if is_kill ev then [ev] else [])"
  by (simp add: kills_sent_def emit_def)

lemma Stop_reaches_kill:
  assumes "\<not> IsExcluded cfg c"
    and "GetCommand os c w = (Inr command, w1)" and "Pid command \<noteq> 0"
    and "interruptProcess os cfg command w1 = ((False, None), w2)"
    and "waitForTerm os command (Second * 5) w2 = ((False, None), w3)"
  shows "Stop os cfg c w =
           (case killProcess os cfg c command w3 of
              ((stopped, Some err), w4) \<Rightarrow> ((None, Some (Fail err)), w4)
            | ((stopped, None), w4) \<Rightarrow>
               (if stopped then ((None, Some (SoftFail (New ''Killed''))), w4)
                else ((None, Some (Fail (New ''Process was not killed''))), w4)))"
  using assms by (simp add: Stop_def)

lemma escalation_kills:
  assumes "GetCommand os c w = (Inr command, w1)"
    and "interruptProcess os cfg command w1 = ((False, None), w2)"
    and "waitForTerm os command (Second * 5) w2 = ((False, None), w3)"
  shows "kills_sent w3 = kills_sent w"
proof -
  have "kills_sent w1 = kills_sent w"
    using GetCommand_kills[of os c w] assms(1) by simp
  moreover have "kills_sent w2 = kills_sent w1"
    using interruptProcess_kills[of os cfg command w1] assms(2) by simp
  moreover have "kills_sent w3 = kills_sent w2"
    using waitForTerm_kills[of os command "Second * 5" w2] assms(3) by simp
  ultimately show ?thesis by simp
qed

text \<open>The escalation of the sample system, step by step.\<close>

lemma stubborn_GetCommand:
  "GetCommand (stubborn_os pgid) api api_recorded
     = (Inr \<lparr>Service = api, Pid = 4242\<rparr>, api_recorded\<lparr>clock := 3\<rparr>)"
  by (simp add: sample_defs eval_defs)

lemma stubborn_interruptProcess:
  "interruptProcess (stubborn_os pgid) all_services \<lparr>Service = api, Pid = 4242\<rparr> (api_recorded\<lparr>clock := 3\<rparr>)
     = ((False, None), api_recorded\<lparr>clock := 6, trace := [SendSignal 4242 SIGINT]\<rparr>)"
  by (simp add: sample_defs eval_defs)

lemma stubborn_waitForTerm:
  "waitForTerm (stubborn_os pgid) \<lparr>Service = api, Pid = 4242\<rparr> (Second * 5)
       (api_recorded\<lparr>clock := 6, trace := [SendSignal 4242 SIGINT]\<rparr>)
     = ((False, None), api_recorded\<lparr>clock := 108, trace := [SendSignal 4242 SIGINT]\<rparr>)"
  by (simp add: sample_defs eval_defs waitForTerm_loop.simps)

text \<open>The same steps when the kill command fails.\<close>

lemma failing_kill_GetCommand:
  "GetCommand failing_kill_os api api_recorded
     = (Inr \<lparr>Service = api, Pid = 4242\<rparr>, api_recorded\<lparr>clock := 3\<rparr>)"
  by (simp add: failing_kill_os_def sample_defs eval_defs)

lemma failing_kill_interruptProcess:
  "interruptProcess failing_kill_os all_services \<lparr>Service = api, Pid = 4242\<rparr> (api_recorded\<lparr>clock := 3\<rparr>)
     = ((False, None), api_recorded\<lparr>clock := 6, trace := [SendSignal 4242 SIGINT]\<rparr>)"
  by (simp add: failing_kill_os_def sample_defs eval_defs)

lemma failing_kill_waitForTerm:
  "waitForTerm failing_kill_os \<lparr>Service = api, Pid = 4242\<rparr> (Second * 5)
       (api_recorded\<lparr>clock := 6, trace := [SendSignal 4242 SIGINT]\<rparr>)
     = ((False, None), api_recorded\<lparr>clock := 108, trace := [SendSignal 4242 SIGINT]\<rparr>)"
  by (simp add: failing_kill_os_def sample_defs eval_defs waitForTerm_loop.simps)

subsection \<open>Claim C3\<close>

text \<open>
  C3, amended. When \<^verbatim>\<open>Stop\<close> escalates (the service is in the operation set, the
  interrupt was delivered and the process was still there after it and through the five seconds of
  waiting) and the process group of the recorded pid is \<open>pgid\<close>: if \<open>pgid\<close> is 0 or 1, no
  kill signal is sent and the tracker gets the hard failure "suspect pgid"; otherwise
  exactly one kill signal is sent in the whole call, to the process group \<open>pgid\<close>, and the
  tracker gets the soft failure "Killed" when the signal was delivered (the hard failure
  with the error of the delivery otherwise).
\<close>

theorem Stop_escalation_guards_pgid:
  assumes "\<not> IsExcluded cfg c"
    and "GetCommand os c w = (Inr command, w1)" and "Pid command \<noteq> 0"
    and "interruptProcess os cfg command w1 = ((False, None), w2)"
    and "waitForTerm os command (Second * 5) w2 = ((False, None), w3)"
    and "os_Getpgid os (clock w3) (Pid command) = Inr pgid"
  shows "(pgid = 0 \<or> pgid = 1 \<longrightarrow>
            fst (Stop os cfg c w) = (None, Some (Fail (WithStack (New (''suspect pgid: '' @ Itoa pgid)))))
            \<and> kills_sent (snd (Stop os cfg c w)) = kills_sent w)
       \<and> (pgid \<noteq> 0 \<and> pgid \<noteq> 1 \<longrightarrow>
            kills_sent (snd (Stop os cfg c w)) = kills_sent w @ [KillGroupSignal pgid]
            \<and> (os_KillGroup os (Suc (clock w3)) pgid = None \<longrightarrow>
                 fst (Stop os cfg c w) = (None, Some (SoftFail (New ''Killed''))))
            \<and> (\<forall>err. os_KillGroup os (Suc (clock w3)) pgid = Some err \<longrightarrow>
                 fst (Stop os cfg c w) = (None, Some (Fail (WithStack err)))))"
proof -
  note stop = Stop_reaches_kill[OF assms(1-5)]
  note kp = killProcess_Getpgid[OF assms(6), of cfg c]
  note before = escalation_kills[OF assms(2,4,5)]
  show ?thesis
  proof (intro conjI impI allI)
    assume "pgid = 0 \<or> pgid = 1"
    then show "fst (Stop os cfg c w) = (None, Some (Fail (WithStack (New (''suspect pgid: '' @ Itoa pgid)))))"
      and "kills_sent (snd (Stop os cfg c w)) = kills_sent w"
      using stop kp before by auto
  next
    assume ok: "pgid \<noteq> 0 \<and> pgid \<noteq> 1"
    show "kills_sent (snd (Stop os cfg c w)) = kills_sent w @ [KillGroupSignal pgid]"
      using ok stop kp before
      by (cases "os_KillGroup os (Suc (clock w3)) pgid") (simp_all add: kills_sent_emit)
    { assume "os_KillGroup os (Suc (clock w3)) pgid = None"
      then show "fst (Stop os cfg c w) = (None, Some (SoftFail (New ''Killed'')))"
        using ok stop kp by simp }
    { fix err assume "os_KillGroup os (Suc (clock w3)) pgid = Some err"
      then show "fst (Stop os cfg c w) = (None, Some (Fail (WithStack err)))"
        using ok stop kp by simp }
  qed
qed

theorem Stop_escalation_guards_pgid_witness:
  "\<not> IsExcluded all_services api
   \<and> os_Getpgid (stubborn_os 1) 108 4242 = Inr 1
   \<and> fst (Stop (stubborn_os 1) all_services api api_recorded)
       = (None, Some (Fail (WithStack (New ''suspect pgid: 1''))))
   \<and> kills_sent (snd (Stop (stubborn_os 1) all_services api api_recorded)) = []
   \<and> os_Getpgid (stubborn_os 4242) 108 4242 = Inr 4242
   \<and> os_KillGroup (stubborn_os 4242) 109 4242 = None
   \<and> fst (Stop (stubborn_os 4242) all_services api api_recorded)
       = (None, Some (SoftFail (New ''Killed'')))
   \<and> kills_sent (snd (Stop (stubborn_os 4242) all_services api api_recorded)) = [KillGroupSignal 4242]
   \<and> os_Getpgid failing_kill_os 108 4242 = Inr 4242
   \<and> os_KillGroup failing_kill_os 109 4242 = Some (External ''exit status 1'')
   \<and> fst (Stop failing_kill_os all_services api api_recorded)
       = (None, Some (Fail (WithStack (External ''exit status 1''))))"
proof -
  have incl: "\<not> IsExcluded all_services api"
    by (simp add: IsExcluded_def all_services_def)
  have pid: "Pid \<lparr>Service = api, Pid = 4242\<rparr> \<noteq> 0" by simp
  have g3: "os_Getpgid failing_kill_os (clock (api_recorded\<lparr>clock := 108, trace := [SendSignal 4242 SIGINT]\<rparr>))
              (Pid \<lparr>Service = api, Pid = 4242\<rparr>) = Inr 4242"
    by (simp add: failing_kill_os_def sample_defs)
  have k3: "os_KillGroup failing_kill_os 109 4242 = Some (External ''exit status 1'')"
    by (simp add: failing_kill_os_def sample_defs)
  note t3 = Stop_escalation_guards_pgid[OF incl failing_kill_GetCommand pid
              failing_kill_interruptProcess failing_kill_waitForTerm g3]
  have g1: "os_Getpgid (stubborn_os 1) (clock (api_recorded\<lparr>clock := 108, trace := [SendSignal 4242 SIGINT]\<rparr>))
              (Pid \<lparr>Service = api, Pid = 4242\<rparr>) = Inr 1"
    by (simp add: sample_defs)
  have g2: "os_Getpgid (stubborn_os 4242) (clock (api_recorded\<lparr>clock := 108, trace := [SendSignal 4242 SIGINT]\<rparr>))
              (Pid \<lparr>Service = api, Pid = 4242\<rparr>) = Inr 4242"
    by (simp add: sample_defs)
  have k2: "os_KillGroup (stubborn_os 4242) 109 4242 = None"
    by (simp add: sample_defs)
  have none: "kills_sent api_recorded = []"
    by (simp add: kills_sent_def sample_defs)
  have itoa: "Itoa 1 = ''1''"
    by (simp add: Itoa_def nat_digits.simps digit_char_def)
  note t1 = Stop_escalation_guards_pgid[OF incl stubborn_GetCommand pid
              stubborn_interruptProcess stubborn_waitForTerm g1]
  note t2 = Stop_escalation_guards_pgid[OF incl stubborn_GetCommand pid
              stubborn_interruptProcess stubborn_waitForTerm g2]
  show ?thesis
    using t1 t2 t3 incl g1 g2 g3 k2 k3 none itoa by simp
qed

text \<open>
  C3 as stated fails when the kill of the group fails: the group is 4242, neither 0 nor 1,
  one kill signal goes to the group, and the tracker gets the hard failure with the error
  of the kill, not "Killed".
\<close>

theorem Stop_failed_kill_is_not_Killed:
  "os_Getpgid failing_kill_os 108 4242 = Inr 4242
   \<and> kills_sent (snd (Stop failing_kill_os all_services api api_recorded)) = [KillGroupSignal 4242]
   \<and> fst (Stop failing_kill_os all_services api api_recorded)
       = (None, Some (Fail (WithStack (External ''exit status 1''))))
   \<and> fst (Stop failing_kill_os all_services api api_recorded)
       \<noteq> (None, Some (SoftFail (New ''Killed'')))"
proof -
  have incl: "\<not> IsExcluded all_services api"
    by (simp add: IsExcluded_def all_services_def)
  have pid: "Pid \<lparr>Service = api, Pid = 4242\<rparr> \<noteq> 0" by simp
  have stop: "Stop failing_kill_os all_services api api_recorded
       = ((None, Some (Fail (WithStack (External ''exit status 1'')))),
          api_recorded\<lparr>clock := 110, trace := [SendSignal 4242 SIGINT, KillGroupSignal 4242]\<rparr>)"
    unfolding Stop_reaches_kill[OF incl failing_kill_GetCommand pid failing_kill_interruptProcess
        failing_kill_waitForTerm]
    by (simp add: killProcess_def KillGroup_def failing_kill_os_def sample_defs tick_def emit_def)
  show ?thesis
    unfolding stop by (simp add: kills_sent_def failing_kill_os_def sample_defs)
qed

subsection \<open>Claim C8\<close>

lemma GetCommand_set_launcher:
  "GetCommand (os\<lparr>os_StartAsync := launcher\<rparr>) c w = GetCommand os c w"
  by (auto simp: GetCommand_def Let_def clearState_def getPidPath_def NewProcess_def
           split: option.splits sum.splits prod.splits if_splits)

text \<open>
  C8. \<^verbatim>\<open>Start\<close> is \<^verbatim>\<open>Build\<close> followed by \<^verbatim>\<open>Launch\<close> on the world that \<^verbatim>\<open>Build\<close>
  leaves, each error wrapped by \<^verbatim>\<open>errors.WithStack\<close>; when \<^verbatim>\<open>Build\<close> fails,
  \<^verbatim>\<open>Start\<close> does not depend on what launching would do; and for a service excluded
  from the operation set \<^verbatim>\<open>Build\<close>, \<^verbatim>\<open>Launch\<close> and \<^verbatim>\<open>Start\<close> return no error and
  leave the world as it is.
\<close>

theorem Start_is_Build_then_Launch:
  "Start os cfg c w =
     (case Build os cfg c w of
        (Some err, w1) \<Rightarrow> (Some (WithStack err), w1)
      | (None, w1) \<Rightarrow> (case Launch os cfg c w1 of (err, w2) \<Rightarrow> (WithStack_opt err, w2)))
   \<and> (fst (Build os cfg c w) \<noteq> None \<longrightarrow>
        Start (os\<lparr>os_StartAsync := launcher\<rparr>) cfg c w = Start os cfg c w)
   \<and> (IsExcluded cfg c \<longrightarrow>
        Build os cfg c w = (None, w) \<and> Launch os cfg c w = (None, w) \<and> Start os cfg c w = (None, w))"
proof (intro conjI impI)
  show "Start os cfg c w =
     (case Build os cfg c w of
        (Some err, w1) \<Rightarrow> (Some (WithStack err), w1)
      | (None, w1) \<Rightarrow> (case Launch os cfg c w1 of (err, w2) \<Rightarrow> (WithStack_opt err, w2)))"
    by (simp add: Start_def Build_def Launch_def)
next
  assume excl: "IsExcluded cfg c"
  show "Build os cfg c w = (None, w)" using excl by (simp add: Build_def)
  show "Launch os cfg c w = (None, w)" using excl by (simp add: Launch_def)
  show "Start os cfg c w = (None, w)" using excl by (simp add: Start_def)
next
  assume failed: "fst (Build os cfg c w) \<noteq> None"
  have same: "Build (os\<lparr>os_StartAsync := launcher\<rparr>) cfg c w = Build os cfg c w"
    by (auto simp: Build_def GetCommand_set_launcher split: prod.splits sum.splits)
  obtain r w1 where b: "Build os cfg c w = (r, w1)" by (cases "Build os cfg c w")
  with failed obtain err where r: "r = Some err" by (cases r) auto
  show "Start (os\<lparr>os_StartAsync := launcher\<rparr>) cfg c w = Start os cfg c w"
    unfolding Start_def same using b r by simp
qed

theorem Start_is_Build_then_Launch_witness:
  "fst (Build failing_build_os all_services api api_recorded) \<noteq> None
   \<and> Start (failing_build_os\<lparr>os_StartAsync := failing_launcher\<rparr>) all_services api api_recorded
       = Start failing_build_os all_services api api_recorded
   \<and> fst (Start failing_build_os all_services api api_recorded)
       = Some (WithStack (WithStack (External ''exit status 2'')))
   \<and> IsExcluded without_api api
   \<and> Build failing_build_os without_api api api_recorded = (None, api_recorded)
   \<and> Launch failing_build_os without_api api api_recorded = (None, api_recorded)
   \<and> Start failing_build_os without_api api api_recorded = (None, api_recorded)"
proof -
  have build: "Build failing_build_os all_services api api_recorded
                 = (Some (WithStack (External ''exit status 2'')), api_recorded\<lparr>clock := 3\<rparr>)"
    by (simp add: Build_def failing_build_os_def sample_defs eval_defs)
  have failed: "fst (Build failing_build_os all_services api api_recorded) \<noteq> None"
    by (simp add: build)
  have excl: "IsExcluded without_api api"
    by (simp add: IsExcluded_def without_api_def api_def)
  show ?thesis
    using Start_is_Build_then_Launch[of failing_build_os all_services api api_recorded failing_launcher]
      Start_is_Build_then_Launch[of failing_build_os without_api api api_recorded failing_launcher]
      build failed excl
    by simp
qed

subsection \<open>Claim C10\<close>

lemma GetCommand_set_logs:
  "GetCommand os c (w\<lparr>logs := l\<rparr>) = (fst (GetCommand os c w), (snd (GetCommand os c w))\<lparr>logs := l\<rparr>)"
  by (auto simp: GetCommand_def Let_def clearState_def emit_def tick_def
           split: option.splits sum.splits prod.splits if_splits)

lemma loadConnections_set_logs:
  "loadConnections os (w\<lparr>logs := l\<rparr>) = (fst (loadConnections os w), (snd (loadConnections os w))\<lparr>logs := l\<rparr>)"
  by (simp add: loadConnections_def tick_def emit_def)

lemma doGetPorts_set_logs:
  "doGetPorts os c p (w\<lparr>logs := l\<rparr>) = (fst (doGetPorts os c p w), (snd (doGetPorts os c p w))\<lparr>logs := l\<rparr>)"
  "doGetPorts_children os c ps ports (w\<lparr>logs := l\<rparr>)
     = (fst (doGetPorts_children os c ps ports w), (snd (doGetPorts_children os c ps ports w))\<lparr>logs := l\<rparr>)"
proof (induction os c p w and os c ps ports w rule: doGetPorts_doGetPorts_children.induct)
  case (1 os c pid kids w)
  obtain r w1 where lc: "loadConnections os w = (r, w1)" by (cases "loadConnections os w")
  show ?case
  proof (cases r)
    case (Some e)
    then show ?thesis using lc by (simp add: loadConnections_set_logs)
  next
    case None
    show ?thesis
    proof (cases kids)
      case (Inl e)
      then show ?thesis using lc None by (simp add: loadConnections_set_logs Let_def)
    next
      case (Inr children)
      show ?thesis
        using lc None Inr "1.IH"[OF lc[symmetric] None refl refl Inr]
        by (simp add: loadConnections_set_logs Let_def split: prod.splits)
    qed
  qed
next
  case (2 os c ports w)
  then show ?case by simp
next
  case (3 os c child rest ports w)
  obtain r w1 where d: "doGetPorts os c child w = (r, w1)" by (cases "doGetPorts os c child w")
  show ?case
  proof (cases r)
    case (Inl e)
    then show ?thesis using d "3.IH"(1) "3.IH"(2)[OF d[symmetric] Inl] by simp
  next
    case (Inr childPorts)
    then show ?thesis using d "3.IH"(1) "3.IH"(3)[OF d[symmetric] Inr] by simp
  qed
qed

lemma getPorts_set_logs:
  "getPorts os c p (w\<lparr>logs := l\<rparr>) = (fst (getPorts os c p w), (snd (getPorts os c p w))\<lparr>logs := l\<rparr>)"
  by (simp add: getPorts_def doGetPorts_set_logs split: prod.splits sum.splits)

lemma getPorts_logs: "logs (snd (getPorts os c p w)) = logs w"
proof -
  have "logs (snd (getPorts os c p (w\<lparr>logs := l\<rparr>))) = l" for l
    by (simp add: getPorts_set_logs)
  from this[of "logs w"] show ?thesis by simp
qed

lemma tick_set_logs: "tick (w\<lparr>logs := l\<rparr>) = (tick w)\<lparr>logs := l\<rparr>"
  by (simp add: tick_def)

lemma Status_set_logs_isl: "isl (fst (Status os c (w\<lparr>logs := l\<rparr>))) = isl (fst (Status os c w))"
  by (simp add: Status_def GetCommand_set_logs getPorts_set_logs tick_set_logs Let_def
           split: prod.splits sum.splits)

lemma getLogCounts_unopened:
  "logs w (GetRunLog os c) = Inl err \<Longrightarrow> getLogCounts os c w = (0, 0)"
  by (simp add: getLogCounts_def)

lemma Status_counts_unopened:
  assumes "logs w (GetRunLog os c) = Inl err" and "fst (Status os c w) = Inr sts" and "st \<in> set sts"
  shows "StdoutCount st = 0 \<and> StderrCount st = 0"
proof -
  obtain r w1 where g: "GetCommand os c w = (r, w1)" by (cases "GetCommand os c w")
  have l1: "logs w1 = logs w" using GetCommand_logs[of os c w] g by simp
  have l2: "\<And>p. logs (snd (getPorts os c p (tick (tick w1)))) = logs w"
    using l1 by (simp add: getPorts_logs)
  have zero: "\<And>p r w2. getPorts os c p (tick (tick w1)) = (r, w2) \<Longrightarrow> getLogCounts os c w2 = (0, 0)"
  proof -
    fix p r w2 assume "getPorts os c p (tick (tick w1)) = (r, w2)"
    then have "logs w2 = logs w" using l2[of p] by simp
    then show "getLogCounts os c w2 = (0, 0)"
      using assms(1) by (simp add: getLogCounts_def)
  qed
  show ?thesis
    using assms(2,3) g zero
    by (auto simp: Status_def Let_def split: sum.splits prod.splits if_splits)
qed

text \<open>
  What holds of the log counts. The log never makes \<^verbatim>\<open>Status\<close> fail: whether
  \<^verbatim>\<open>Status\<close> returns an error is the same whatever the log files hold. When the log of
  the service cannot be opened, \<^verbatim>\<open>getLogCounts\<close> gives 0 and 0, and so does every
  status that \<^verbatim>\<open>Status\<close> returns. A line that the JSON decoder rejects is skipped: the
  counts go on from that line as they were before it.
\<close>

lemma getLogCounts_total_and_skips_rejected:
  "isl (fst (Status os c (w\<lparr>logs := l\<rparr>))) = isl (fst (Status os c w))
   \<and> (\<forall>err. logs w (GetRunLog os c) = Inl err \<longrightarrow>
        getLogCounts os c w = (0, 0)
        \<and> (\<forall>sts. fst (Status os c w) = Inr sts \<longrightarrow>
             (\<forall>st \<in> set sts. StdoutCount st = 0 \<and> StderrCount st = 0)))
   \<and> (fst (os_Unmarshal os line stream) \<noteq> None \<longrightarrow>
        scan_lines os (line # rest) (stdoutCount, stderrCount, stream)
          = scan_lines os rest (stdoutCount, stderrCount, snd (os_Unmarshal os line stream)))"
proof (intro conjI allI impI ballI)
  show "isl (fst (Status os c (w\<lparr>logs := l\<rparr>))) = isl (fst (Status os c w))"
    by (rule Status_set_logs_isl)
next
  fix err assume "logs w (GetRunLog os c) = Inl err"
  then show "getLogCounts os c w = (0, 0)" by (rule getLogCounts_unopened)
next
  fix err sts st
  assume "logs w (GetRunLog os c) = Inl err" "fst (Status os c w) = Inr sts" "st \<in> set sts"
  then show "StdoutCount st = 0" "StderrCount st = 0"
    using Status_counts_unopened by blast+
next
  assume "fst (os_Unmarshal os line stream) \<noteq> None"
  then show "scan_lines os (line # rest) (stdoutCount, stderrCount, stream)
          = scan_lines os rest (stdoutCount, stderrCount, snd (os_Unmarshal os line stream))"
    by (auto split: prod.splits option.splits)
qed

lemma getLogCounts_total_and_skips_rejected_sample:
  "logs api_recorded (GetRunLog (stubborn_os 1) api) = Inl (External ''no such file'')
   \<and> getLogCounts (stubborn_os 1) api api_recorded = (0, 0)
   \<and> map st_Status (projr (fst (Status (stubborn_os 1) api api_recorded))) = [StatusRunning]
   \<and> map StdoutCount (projr (fst (Status (stubborn_os 1) api api_recorded))) = [0]
   \<and> map StderrCount (projr (fst (Status (stubborn_os 1) api api_recorded))) = [0]
   \<and> fst (os_Unmarshal (stubborn_os 1) ''not json'' ''stdout'') \<noteq> None
   \<and> scan_lines (stubborn_os 1) [''not json'', ''{}''] (0, 0, ''stdout'')
       = scan_lines (stubborn_os 1) [''{}''] (0, 0, ''stdout'')"
proof -
  have nolog: "logs api_recorded (GetRunLog (stubborn_os 1) api) = Inl (External ''no such file'')"
    by (simp add: sample_defs GetRunLog_def)
  have bad: "fst (os_Unmarshal (stubborn_os 1) ''not json'' ''stdout'') \<noteq> None"
    by (simp add: sample_defs)
  have bad': "snd (os_Unmarshal (stubborn_os 1) ''not json'' ''stdout'') = ''stdout''"
    by (simp add: sample_defs)
  have st: "\<exists>st. fst (Status (stubborn_os 1) api api_recorded) = Inr [st] \<and> st_Status st = StatusRunning"
    by (simp add: Status_def getPorts_def loadConnections_def getLogCounts_def GetRunLog_def
          sample_defs eval_defs)
  then obtain st where st: "fst (Status (stubborn_os 1) api api_recorded) = Inr [st]" "st_Status st = StatusRunning"
    by blast
  show ?thesis
    using getLogCounts_total_and_skips_rejected[where os = "stubborn_os 1" and c = api and w = api_recorded
            and l = "logs api_recorded" and line = "''not json''" and stream = "''stdout''"
            and rest = "[''{}'']" and stdoutCount = 0 and stderrCount = 0]
      nolog bad bad' st
    by simp
qed

text \<open>
  C10. A line that is no record of the log and that the decoder does not reject is
  counted: \<^verbatim>\<open>lineData\<close> is declared before the loop, \<^verbatim>\<open>null\<close> and \<^verbatim>\<open>{}\<close>
  decode without error and leave \<^verbatim>\<open>Stream\<close> as the line before set it, and the log of
  one record of the standard output followed by these two lines counts 3 lines of standard
  output, in \<^verbatim>\<open>getLogCounts\<close> and in the status that \<^verbatim>\<open>Status\<close> returns.
\<close>

theorem getLogCounts_counts_lines_without_Stream:
  "logs api_logged (GetRunLog (stubborn_os 1) api)
     = Inr [''{\"Stream\":\"stdout\"}'', ''null'', ''{}'']
   \<and> os_Unmarshal (stubborn_os 1) ''null'' ''stdout'' = (None, ''stdout'')
   \<and> os_Unmarshal (stubborn_os 1) ''{}'' ''stdout'' = (None, ''stdout'')
   \<and> getLogCounts (stubborn_os 1) api api_logged = (3, 0)
   \<and> map StdoutCount (projr (fst (Status (stubborn_os 1) api api_logged))) = [3]
   \<and> map StderrCount (projr (fst (Status (stubborn_os 1) api api_logged))) = [0]"
  by (simp add: Status_def getPorts_def loadConnections_def getLogCounts_def GetRunLog_def
        api_logged_def sample_defs eval_defs)

subsection \<open>Claim C4\<close>

lemma signals_sent_emit: "signals_sent (emit ev w) = signals_sent w @ (if is_signal ev then [ev] else [])"
  by (simp add: signals_sent_def emit_def)

text \<open>
  C4, amended. \<^verbatim>\<open>Stop\<close> on a service that is excluded from the operation set
  returns no error, reports nothing to the tracker and leaves the world as it is. On a
  service that is not excluded and whose command has the pid 0 (no pid record, or a record
  that \<^verbatim>\<open>GetCommand\<close> has just cleared), \<^verbatim>\<open>Stop\<close> returns no error, reports the
  soft failure "Not running" and sends no signal.
\<close>

theorem Stop_without_identity:
  "(IsExcluded cfg c \<longrightarrow> Stop os cfg c w = ((None, None), w))
   \<and> (\<not> IsExcluded cfg c \<and> GetCommand os c w = (Inr command, w1) \<and> Pid command = 0 \<longrightarrow>
        Stop os cfg c w = ((None, Some (SoftFail (New ''Not running''))), w1)
        \<and> signals_sent w1 = signals_sent w)"
proof (intro conjI impI)
  assume "IsExcluded cfg c"
  then show "Stop os cfg c w = ((None, None), w)" by (simp add: Stop_def)
next
  assume h: "\<not> IsExcluded cfg c \<and> GetCommand os c w = (Inr command, w1) \<and> Pid command = 0"
  then show "Stop os cfg c w = ((None, Some (SoftFail (New ''Not running''))), w1)"
    by (simp add: Stop_def)
  show "signals_sent w1 = signals_sent w"
    using GetCommand_signals[of os c w] h by simp
qed

theorem Stop_without_identity_witness:
  "IsExcluded without_api api
   \<and> Stop (stubborn_os 1) without_api api (world0 Map.empty) = ((None, None), world0 Map.empty)
   \<and> \<not> IsExcluded all_services api
   \<and> GetCommand (stubborn_os 1) api (world0 Map.empty) = (Inr \<lparr>Service = api, Pid = 0\<rparr>, world0 Map.empty)
   \<and> Stop (stubborn_os 1) all_services api (world0 Map.empty)
       = ((None, Some (SoftFail (New ''Not running''))), world0 Map.empty)
   \<and> signals_sent (world0 Map.empty) = []"
proof -
  have excl: "IsExcluded without_api api"
    by (simp add: IsExcluded_def without_api_def api_def)
  have incl: "\<not> IsExcluded all_services api"
    by (simp add: IsExcluded_def all_services_def)
  have g: "GetCommand (stubborn_os 1) api (world0 Map.empty) = (Inr \<lparr>Service = api, Pid = 0\<rparr>, world0 Map.empty)"
    by (simp add: GetCommand_def world0_def)
  have none: "signals_sent (world0 Map.empty) = []"
    by (simp add: signals_sent_def world0_def)
  show ?thesis
    using Stop_without_identity[where cfg = without_api and c = api and os = "stubborn_os 1"
            and w = "world0 Map.empty"]
      Stop_without_identity[where cfg = all_services and c = api and os = "stubborn_os 1"
            and w = "world0 Map.empty" and command = "\<lparr>Service = api, Pid = 0\<rparr>"
            and ?w1.0 = "world0 Map.empty"]
      excl incl g none
    by simp
qed

text \<open>
  C4 as stated fails for an excluded service: it has no persisted identity, and
  \<^verbatim>\<open>Stop\<close> returns before the tracker is started, so no "Not running" is reported.
\<close>

theorem Stop_excluded_reports_nothing:
  "GetCommand (stubborn_os 1) api (world0 Map.empty) = (Inr \<lparr>Service = api, Pid = 0\<rparr>, world0 Map.empty)
   \<and> fst (Stop (stubborn_os 1) without_api api (world0 Map.empty)) = (None, None)
   \<and> snd (fst (Stop (stubborn_os 1) without_api api (world0 Map.empty)))
        \<noteq> Some (SoftFail (New ''Not running''))"
  by (simp add: GetCommand_def world0_def Stop_def IsExcluded_def without_api_def api_def)

subsection \<open>The outcomes of Stop\<close>


lemma Stop_running:
  assumes "\<not> IsExcluded cfg c" and "GetCommand os c w = (Inr command, w1)" and "Pid command \<noteq> 0"
  shows "Stop os cfg c w =
     (case interruptProcess os cfg command w1 of
        ((stopped, Some err), w2) \<Rightarrow> ((None, Some (Fail err)), w2)
      | ((stopped, None), w2) \<Rightarrow>
         (if \<not> stopped
          then (case waitForTerm os command (Second * 5) w2 of
                  ((stopped, Some err), w3) \<Rightarrow> ((None, Some (Fail err)), w3)
                | ((stopped, None), w3) \<Rightarrow>
                   (if \<not> stopped
                    then (case killProcess os cfg c command w3 of
                            ((stopped, Some err), w4) \<Rightarrow> ((None, Some (Fail err)), w4)
                          | ((stopped, None), w4) \<Rightarrow>
                             (if stopped
                              then ((None, Some (SoftFail (New ''Killed''))), w4)
                              else ((None, Some (Fail (New ''Process was not killed''))), w4)))
                    else (case clearState os command w3 of
                            (command', w4) \<Rightarrow> ((None, Some Success), w4))))
          else (case clearState os command w2 of
                  (command', w3) \<Rightarrow> ((None, Some Success), w3))))"
  using assms by (simp add: Stop_def)

text \<open>\<^verbatim>\<open>Stop\<close> returns an error to its caller only when \<^verbatim>\<open>GetCommand\<close> fails.\<close>

lemma Stop_returns_error_iff:
  "fst (fst (Stop os cfg c w)) \<noteq> None \<longleftrightarrow> \<not> IsExcluded cfg c \<and> isl (fst (GetCommand os c w))"
proof (cases "IsExcluded cfg c")
  case True
  then show ?thesis by (simp add: Stop_def)
next
  case False
  obtain r w1 where g: "GetCommand os c w = (r, w1)" by (cases "GetCommand os c w")
  show ?thesis
  proof (cases r)
    case (Inl e)
    then show ?thesis using False g by (simp add: Stop_def)
  next
    case (Inr command)
    show ?thesis
    proof (cases "Pid command = 0")
      case True
      then show ?thesis using False g Inr by (simp add: Stop_def)
    next
      case nz: False
      show ?thesis
        unfolding Stop_running[OF False g[unfolded Inr] nz] using False g Inr
        by (auto split: prod.splits option.splits if_splits)
    qed
  qed
qed

lemma Stop_Success_clears:
  assumes "snd (fst (Stop os cfg c w)) = Some Success"
  shows "files (snd (Stop os cfg c w)) (getPidPath os \<lparr>Service = c, Pid = 0\<rparr>) = None"
proof -
  from assms have incl: "\<not> IsExcluded cfg c" by (auto simp: Stop_def)
  obtain r w1 where g: "GetCommand os c w = (r, w1)" by (cases "GetCommand os c w")
  with assms incl obtain command where r: "r = Inr command"
    by (cases r) (auto simp: Stop_def)
  have pid: "Pid command \<noteq> 0" using assms incl g r by (auto simp: Stop_def)
  have svc: "Service command = c" using GetCommand_Service g r by blast
  have path: "getPidPath os command = getPidPath os \<lparr>Service = c, Pid = 0\<rparr>"
    using svc by (simp add: getPidPath_def)
  show ?thesis
    using assms path unfolding Stop_running[OF incl g[unfolded r] pid]
    by (auto simp: clearState_def emit_def split: prod.splits option.splits if_splits)
qed

lemma Stop_Killed_keeps_files:
  assumes "snd (fst (Stop os cfg c w)) = Some (SoftFail (New ''Killed''))"
  shows "files (snd (Stop os cfg c w)) = files (snd (GetCommand os c w))"
proof -
  from assms have incl: "\<not> IsExcluded cfg c" by (auto simp: Stop_def)
  obtain r w1 where g: "GetCommand os c w = (r, w1)" by (cases "GetCommand os c w")
  with assms incl obtain command where r: "r = Inr command"
    by (cases r) (auto simp: Stop_def)
  have pid: "Pid command \<noteq> 0" using assms incl g r by (auto simp: Stop_def)
  obtain ri w2 where i: "interruptProcess os cfg command w1 = (ri, w2)"
    by (cases "interruptProcess os cfg command w1")
  have f2: "files w2 = files w1"
    using i by (auto simp: interruptProcess_def Let_def emit_def split: sum.splits option.splits)
  obtain rw w3 where wt: "waitForTerm os command (Second * 5) w2 = (rw, w3)"
    by (cases "waitForTerm os command (Second * 5) w2")
  have f3: "files w3 = files w2"
    using wt waitForTerm_loop_world[of os command "Second * 5" 0 w2] by (simp add: waitForTerm_def)
  obtain rk w4 where k: "killProcess os cfg c command w3 = (rk, w4)"
    by (cases "killProcess os cfg c command w3")
  have f4: "files w4 = files w3"
    using k by (auto simp: killProcess_def KillGroup_def emit_def split: sum.splits if_splits)
  show ?thesis
    using assms g r i wt k f2 f3 f4 unfolding Stop_running[OF incl g[unfolded r] pid]
    by (auto simp: clearState_def emit_def split: prod.splits option.splits if_splits)
qed

lemma stubborn_Stop:
  "Stop (stubborn_os 4242) all_services api api_recorded
     = ((None, Some (SoftFail (New ''Killed''))),
        api_recorded\<lparr>clock := 110, trace := [SendSignal 4242 SIGINT, KillGroupSignal 4242]\<rparr>)"
proof -
  have incl: "\<not> IsExcluded all_services api"
    by (simp add: IsExcluded_def all_services_def)
  have pid: "Pid \<lparr>Service = api, Pid = 4242\<rparr> \<noteq> 0" by simp
  show ?thesis
    unfolding Stop_reaches_kill[OF incl stubborn_GetCommand pid stubborn_interruptProcess
        stubborn_waitForTerm]
    by (simp add: killProcess_def KillGroup_def sample_defs tick_def emit_def)
qed

subsection \<open>Claim C2\<close>

text \<open>
  C2. The process of \<open>api\<close> ignores the interrupt and is there through the five seconds
  of waiting; \<^verbatim>\<open>Stop\<close> kills its process group, reports "Killed" and returns. The
  process is gone, and the pid record is still there: only the path of a clean stop reaches
  \<^verbatim>\<open>clearState\<close> (lemmas \<open>Stop_Success_clears\<close> and \<open>Stop_Killed_keeps_files\<close>).
\<close>

theorem Stop_killed_leaves_pid_record:
  "fst (Stop (stubborn_os 4242) all_services api api_recorded)
     = (None, Some (SoftFail (New ''Killed'')))
   \<and> os_PidExists (stubborn_os 4242)
        (clock (snd (Stop (stubborn_os 4242) all_services api api_recorded))) 4242 = Inr False
   \<and> files (snd (Stop (stubborn_os 4242) all_services api api_recorded)) ''pids/api.pid''
        = Some (Inr ''4242'')"
  unfolding stubborn_Stop by (simp add: sample_defs)

subsection \<open>Claim C6\<close>




subsection \<open>Port discovery on a loaded cache\<close>

lemma loadConnections_cached: "connectionsCache w \<noteq> [] \<Longrightarrow> loadConnections os w = (None, w)"
  by (simp add: loadConnections_def)

lemma concat_map_concat: "concat (map f (concat xss)) = concat (map (\<lambda>xs. concat (map f xs)) xss)"
  by (induction xss) auto

lemma discovered_ports_Process:
  "discovered_ports table known (Process pid kids) =
     filter (\<lambda>port. port \<notin> set known) (listening_ports table pid)
     @ (case kids of Inl err \<Rightarrow> []
        | Inr children \<Rightarrow> concat (map (discovered_ports table known) children))"
  by (cases kids) (simp_all add: discovered_ports_def[abs_def] concat_map_concat filter_concat comp_def)

lemma own_ports:
  "map (\<lambda>connection. Itoa (uint (Laddr_Port connection)))
     (filter (\<lambda>connection. conn_Status connection = ''LISTEN'' \<and> conn_Pid connection = pid
                \<and> uint (Laddr_Port connection) \<notin> set known) table)
   = map Itoa (filter (\<lambda>port. port \<notin> set known) (listening_ports table pid))"
  by (induction table) (auto simp: listening_ports_def)

lemma doGetPorts_cached:
  "connectionsCache w \<noteq> [] \<Longrightarrow>
     doGetPorts os c p w = (Inr (map Itoa (discovered_ports (connectionsCache w) (declared_ports c) p)), w)"
  "connectionsCache w \<noteq> [] \<Longrightarrow>
     doGetPorts_children os c ps ports w
       = (ports @ map Itoa (concat (map (discovered_ports (connectionsCache w) (declared_ports c)) ps)), w)"
proof (induction os c p w and os c ps ports w rule: doGetPorts_doGetPorts_children.induct)
  case (1 os c pid kids w)
  note lc = loadConnections_cached[OF "1.prems", of os]
  have own: "map (\<lambda>connection. Itoa (uint (Laddr_Port connection)))
     (filter (\<lambda>connection. conn_Status connection = ''LISTEN'' \<and> conn_Pid connection = pid
                \<and> uint (Laddr_Port connection) \<notin> set (case LaunchChecks c of None \<Rightarrow> [] | Some lc \<Rightarrow> Ports lc))
        (connectionsCache w))
   = map Itoa (filter (\<lambda>port. port \<notin> set (declared_ports c)) (listening_ports (connectionsCache w) pid))"
    unfolding declared_ports_def by (rule own_ports)
  show ?case
  proof (cases kids)
    case (Inl e)
    then show ?thesis using lc own by (simp add: discovered_ports_Process Let_def)
  next
    case (Inr children)
    show ?thesis
      using lc own Inr "1.IH"[OF lc[symmetric] refl refl refl Inr "1.prems"]
      by (simp add: discovered_ports_Process Let_def)
  qed
next
  case (2 os c ports w)
  then show ?case by simp
next
  case (3 os c child rest ports w)
  note first = "3.IH"(1)[OF "3.prems"]
  show ?case
    using first "3.IH"(3)[OF first[symmetric] refl "3.prems"] by simp
qed

lemma doGetPorts_loaded:
  assumes "loadConnections os w = (None, w2)" and "connectionsCache w2 \<noteq> []"
  shows "doGetPorts os c p w
           = (Inr (map Itoa (discovered_ports (connectionsCache w2) (declared_ports c) p)), w2)"
proof -
  have again: "loadConnections os w2 = (None, w2)"
    using assms(2) by (rule loadConnections_cached)
  obtain pid kids where p: "p = Process pid kids" by (cases p)
  have "doGetPorts os c (Process pid kids) w = doGetPorts os c (Process pid kids) w2"
    using assms(1) again by simp
  then show ?thesis
    using doGetPorts_cached(1)[OF assms(2), of os c p] p by simp
qed

lemma getPorts_loaded:
  assumes "loadConnections os w = (None, w2)" and "connectionsCache w2 \<noteq> []"
  shows "getPorts os c p w
           = (Inr (map Itoa (discovered_ports (connectionsCache w2) (declared_ports c) p @ declared_ports c)), w2)"
  using doGetPorts_loaded[OF assms, of c p]
  by (simp add: getPorts_def declared_ports_def split: option.splits)

lemma set_discovered_ports:
  "set (discovered_ports table known p)
     = (\<Union>pid \<in> set (tree_pids p). set (listening_ports table pid)) - set known"
  by (auto simp: discovered_ports_def)

lemma fetches_emit: "fetches (emit ev w) = fetches w + (if ev = FetchConnections then 1 else 0)"
  by (simp add: fetches_def emit_def)

lemma cache_emit: "connectionsCache (emit ev w) = connectionsCache w"
  by (simp add: emit_def)

lemma getPorts_cached: "connectionsCache w \<noteq> [] \<Longrightarrow> snd (getPorts os c p w) = w"
  using getPorts_loaded[OF loadConnections_cached, of w os c p] by simp

lemma Status_cached:
  assumes "connectionsCache w \<noteq> []"
  shows "connectionsCache (snd (Status os c w)) = connectionsCache w
         \<and> fetches (snd (Status os c w)) = fetches w"
proof -
  obtain r w1 where g: "GetCommand os c w = (r, w1)" by (cases "GetCommand os c w")
  have c1: "connectionsCache w1 = connectionsCache w" using GetCommand_cache[of os c w] g by simp
  have f1: "fetches w1 = fetches w" using GetCommand_fetches[of os c w] g by simp
  have ne: "connectionsCache (tick (tick w1)) \<noteq> []" using c1 assms by simp
  have gp: "\<And>p. snd (getPorts os c p (tick (tick w1))) = tick (tick w1)"
    using ne by (rule getPorts_cached)
  have gp': "\<And>p r' w2. getPorts os c p (tick (tick w1)) = (r', w2) \<Longrightarrow> w2 = tick (tick w1)"
    using gp by (metis snd_conv)
  show ?thesis
    using g c1 f1
    by (auto simp: Status_def Let_def split: sum.splits prod.splits dest!: gp')
qed

lemma sweep_cached:
  "connectionsCache w \<noteq> [] \<Longrightarrow>
     connectionsCache (fold (\<lambda>c w. snd (Status os c w)) cs w) = connectionsCache w
     \<and> fetches (fold (\<lambda>c w. snd (Status os c w)) cs w) = fetches w"
proof (induction cs arbitrary: w)
  case Nil
  then show ?case by simp
next
  case (Cons c cs)
  note step = Status_cached[OF Cons.prems, of os c]
  have "connectionsCache (snd (Status os c w)) \<noteq> []" using step Cons.prems by simp
  from Cons.IH[OF this] step show ?case by simp
qed

lemma family_Status:
  "fst (Status family_os api api_recorded)
     = Inr [\<lparr>st_Service = api, st_Status = StatusRunning, st_Pid = 4242, StartTime = Some 1500000000,
             st_Ports = [''9090'', ''9090'', ''9091'', ''8080''], StdoutCount = 0, StderrCount = 0\<rparr>]"
  by (simp add: Status_def getPorts_def loadConnections_def getLogCounts_def GetRunLog_def
        family_os_def family_kids_def family_table_def listen_def go_div_def
        Itoa_def nat_digits.simps digit_char_def sample_defs eval_defs)

subsection \<open>Claim C7\<close>

text \<open>
  What holds of the cache. Once the cache holds a table that is not empty, port discovery
  leaves the world as it is: \<^verbatim>\<open>getPorts\<close> fetches nothing, and after any number of
  calls of \<^verbatim>\<open>Status\<close>, on any services, the cache is the same table and the count of
  fetches is the same. A call of \<^verbatim>\<open>getPorts\<close> that finds the cache empty and fetches
  without error a table that is not empty fetches once, and the cache holds that table
  afterwards.
\<close>

lemma connections_reused_when_not_empty:
  "(connectionsCache w \<noteq> [] \<longrightarrow>
      snd (getPorts os c proc w) = w
      \<and> connectionsCache (fold (\<lambda>c w. snd (Status os c w)) cs w) = connectionsCache w
      \<and> fetches (fold (\<lambda>c w. snd (Status os c w)) cs w) = fetches w)
   \<and> (connectionsCache w = [] \<and> os_Connections os (clock w) = (table, None) \<and> table \<noteq> [] \<longrightarrow>
      snd (getPorts os c proc w) = tick (emit FetchConnections (w\<lparr>connectionsCache := table\<rparr>))
      \<and> connectionsCache (snd (getPorts os c proc w)) = table
      \<and> fetches (snd (getPorts os c proc w)) = Suc (fetches w))"
proof (intro conjI impI)
  assume ne: "connectionsCache w \<noteq> []"
  show "snd (getPorts os c proc w) = w" using ne by (rule getPorts_cached)
  show "connectionsCache (fold (\<lambda>c w. snd (Status os c w)) cs w) = connectionsCache w"
    and "fetches (fold (\<lambda>c w. snd (Status os c w)) cs w) = fetches w"
    using sweep_cached[OF ne, of os cs] by simp_all
next
  assume h: "connectionsCache w = [] \<and> os_Connections os (clock w) = (table, None) \<and> table \<noteq> []"
  define w2 where "w2 = tick (emit FetchConnections (w\<lparr>connectionsCache := table\<rparr>))"
  have lc: "loadConnections os w = (None, w2)"
    using h by (simp add: loadConnections_def w2_def)
  have ne: "connectionsCache w2 \<noteq> []"
    using h by (simp add: w2_def emit_def)
  have gp: "snd (getPorts os c proc w) = w2"
    using getPorts_loaded[OF lc ne, of c proc] by simp
  show "snd (getPorts os c proc w) = tick (emit FetchConnections (w\<lparr>connectionsCache := table\<rparr>))"
    using gp by (simp add: w2_def)
  show "connectionsCache (snd (getPorts os c proc w)) = table"
    using gp by (simp add: w2_def emit_def)
  show "fetches (snd (getPorts os c proc w)) = Suc (fetches w)"
    using gp by (simp add: w2_def fetches_emit) (simp add: fetches_def)
qed

lemma connections_reused_when_not_empty_sample:
  "connectionsCache (api_recorded\<lparr>connectionsCache := family_table\<rparr>) \<noteq> []
   \<and> fetches (fold (\<lambda>c w. snd (Status family_os c w)) [api, api, api]
                (api_recorded\<lparr>connectionsCache := family_table\<rparr>)) = 0
   \<and> connectionsCache api_recorded = []
   \<and> os_Connections family_os (clock api_recorded) = (family_table, None)
   \<and> family_table \<noteq> []
   \<and> connectionsCache (snd (getPorts family_os api (Process 4242 (family_kids 4242)) api_recorded))
       = family_table
   \<and> fetches (snd (getPorts family_os api (Process 4242 (family_kids 4242)) api_recorded)) = 1"
proof -
  have ne: "connectionsCache (api_recorded\<lparr>connectionsCache := family_table\<rparr>) \<noteq> []"
    by (simp add: family_table_def)
  have f0: "fetches (api_recorded\<lparr>connectionsCache := family_table\<rparr>) = 0"
    by (simp add: fetches_def sample_defs)
  have e: "connectionsCache api_recorded = []"
    by (simp add: sample_defs)
  have f1: "fetches api_recorded = 0"
    by (simp add: fetches_def sample_defs)
  have fetch: "os_Connections family_os (clock api_recorded) = (family_table, None)"
    by (simp add: family_os_def sample_defs)
  have tbl: "family_table \<noteq> []"
    by (simp add: family_table_def)
  show ?thesis
    using connections_reused_when_not_empty[where w = "api_recorded\<lparr>connectionsCache := family_table\<rparr>"
            and os = family_os and cs = "[api, api, api]"]
      connections_reused_when_not_empty[where w = api_recorded and os = family_os
            and table = family_table and c = api and proc = "Process 4242 (family_kids 4242)"]
      ne f0 e f1 fetch tbl
    by (simp add: fetches_emit cache_emit)
qed

text \<open>
  C7. The cache is tested for being empty, not for having been fetched. On a system whose
  connection table is empty the fetch of the first call of \<^verbatim>\<open>Status\<close> succeeds and
  leaves the cache as empty as it was, and the second call of \<^verbatim>\<open>Status\<close> fetches the
  table again: two fetches in one run.
\<close>

theorem connections_fetched_again_when_empty:
  "os_Connections (stubborn_os 1) 5 = ([], None)
   \<and> fetches (snd (Status (stubborn_os 1) api api_recorded)) = 1
   \<and> fetches (snd (Status (stubborn_os 1) api (snd (Status (stubborn_os 1) api api_recorded)))) = 2"
  by (simp add: Status_def getPorts_def loadConnections_def getLogCounts_def GetRunLog_def
        fetches_def sample_defs eval_defs)

subsection \<open>Claim C5\<close>

text \<open>
  C5, amended. For a running service (the pid record names a process that is there, with
  the name of the service in its command line, and the lookups of \<^verbatim>\<open>Status\<close>
  succeed), on a connection table that is not empty (the cached one, or the one fetched
  now): the ports that \<^verbatim>\<open>Status\<close> reports are the listening ports of the process and
  of its descendants that are not declared, in the order of the walk, followed by the
  declared ports. As a set they are the declared ports together with the listening ports
  of the tree, and no discovered port is a declared one. The list is not deduplicated
  otherwise: a port that the table lists twice for the tree is reported twice.
\<close>

theorem Status_ports_declared_and_discovered:
  assumes "GetCommand os c w = (Inr command, w1)" and "Pid command \<noteq> 0"
    and "NewProcess os (clock w1) (to_int32 (Pid command)) = Inr proc"
    and "os_CreateTime os (Suc (clock w1)) (proc_Pid proc) = Inr epochStart"
    and "loadConnections os (tick (tick w1)) = (None, w2)" and "connectionsCache w2 \<noteq> []"
  shows "(\<exists>status. fst (Status os c w) = Inr [status] \<and> st_Status status = StatusRunning
           \<and> st_Ports status
               = map Itoa (discovered_ports (connectionsCache w2) (declared_ports c) proc @ declared_ports c))
         \<and> set (discovered_ports (connectionsCache w2) (declared_ports c) proc)
             = (\<Union>pid \<in> set (tree_pids proc). set (listening_ports (connectionsCache w2) pid))
               - set (declared_ports c)
         \<and> set (discovered_ports (connectionsCache w2) (declared_ports c) proc @ declared_ports c)
             = set (declared_ports c)
               \<union> (\<Union>pid \<in> set (tree_pids proc). set (listening_ports (connectionsCache w2) pid))"
proof (intro conjI)
  note gp = getPorts_loaded[OF assms(5,6), of c proc]
  show "\<exists>status. fst (Status os c w) = Inr [status] \<and> st_Status status = StatusRunning
           \<and> st_Ports status
               = map Itoa (discovered_ports (connectionsCache w2) (declared_ports c) proc @ declared_ports c)"
    using assms(1-4) gp by (simp add: Status_def split: prod.splits)
  show "set (discovered_ports (connectionsCache w2) (declared_ports c) proc)
             = (\<Union>pid \<in> set (tree_pids proc). set (listening_ports (connectionsCache w2) pid))
               - set (declared_ports c)"
    by (rule set_discovered_ports)
  show "set (discovered_ports (connectionsCache w2) (declared_ports c) proc @ declared_ports c)
             = set (declared_ports c)
               \<union> (\<Union>pid \<in> set (tree_pids proc). set (listening_ports (connectionsCache w2) pid))"
    by (auto simp: set_discovered_ports)
qed

theorem Status_ports_declared_and_discovered_witness:
  "GetCommand family_os api api_recorded
     = (Inr \<lparr>Service = api, Pid = 4242\<rparr>, api_recorded\<lparr>clock := 3\<rparr>)
   \<and> tree_pids (Process 4242 (family_kids 4242)) = [4242, 4243, 4244]
   \<and> listening_ports family_table 4242 = []
   \<and> listening_ports family_table 4243 = [9090, 9090]
   \<and> listening_ports family_table 4244 = [8080, 9091]
   \<and> declared_ports api = [8080]
   \<and> map st_Ports (projr (fst (Status family_os api api_recorded)))
       = [[''9090'', ''9090'', ''9091'', ''8080'']]
   \<and> set (discovered_ports family_table [8080] (Process 4242 (family_kids 4242))) = {9090, 9091}"
proof -
  have g: "GetCommand family_os api api_recorded
             = (Inr \<lparr>Service = api, Pid = 4242\<rparr>, api_recorded\<lparr>clock := 3\<rparr>)"
    by (simp add: family_os_def sample_defs eval_defs)
  have pid: "Pid \<lparr>Service = api, Pid = 4242\<rparr> \<noteq> 0" by simp
  have np: "NewProcess family_os (clock (api_recorded\<lparr>clock := 3\<rparr>))
              (to_int32 (Pid \<lparr>Service = api, Pid = 4242\<rparr>)) = Inr (Process 4242 (family_kids 4242))"
    by (simp add: NewProcess_def to_int32_def family_os_def sample_defs)
  have ct: "os_CreateTime family_os (Suc (clock (api_recorded\<lparr>clock := 3\<rparr>)))
              (proc_Pid (Process 4242 (family_kids 4242))) = Inr 1500000000000"
    by (simp add: family_os_def sample_defs)
  have lc: "loadConnections family_os (tick (tick (api_recorded\<lparr>clock := 3\<rparr>)))
              = (None, api_recorded\<lparr>clock := 6, connectionsCache := family_table,
                                   trace := [FetchConnections]\<rparr>)"
    by (simp add: loadConnections_def tick_def emit_def family_os_def sample_defs)
  have ne: "connectionsCache (api_recorded\<lparr>clock := 6, connectionsCache := family_table,
                                   trace := [FetchConnections]\<rparr>) \<noteq> []"
    by (simp add: family_table_def)
  have pids: "tree_pids (Process 4242 (family_kids 4242)) = [4242, 4243, 4244]"
    by (simp add: family_kids_def)
  have l1: "listening_ports family_table 4242 = []"
    and l2: "listening_ports family_table 4243 = [9090, 9090]"
    and l3: "listening_ports family_table 4244 = [8080, 9091]"
    by (simp_all add: listening_ports_def family_table_def listen_def)
  have decl: "declared_ports api = [8080]"
    by (simp add: declared_ports_def api_def)
  have disc: "discovered_ports family_table [8080] (Process 4242 (family_kids 4242)) = [9090, 9090, 9091]"
    unfolding discovered_ports_def pids by (simp add: l1 l2 l3)
  have itoa: "map Itoa [9090, 9090, 9091, 8080] = [''9090'', ''9090'', ''9091'', ''8080'']"
    by (simp add: Itoa_def nat_digits.simps digit_char_def)
  note t = Status_ports_declared_and_discovered[OF g pid np ct lc ne]
  from t obtain status where
    st: "fst (Status family_os api api_recorded) = Inr [status]"
        "st_Ports status = map Itoa (discovered_ports family_table [8080] (Process 4242 (family_kids 4242)) @ [8080])"
    by (auto simp: decl)
  have ports: "map st_Ports (projr (fst (Status family_os api api_recorded)))
                 = [[''9090'', ''9090'', ''9091'', ''8080'']]"
    using st disc itoa by simp
  have dset: "set (discovered_ports family_table [8080] (Process 4242 (family_kids 4242))) = {9090, 9091}"
    using disc by simp
  show ?thesis
    using g pids l1 l2 l3 decl ports dset by simp
qed

text \<open>
  C5 as stated fails: the ports reported are not deduplicated. The child 4243 has two
  listening sockets on port 9090, and \<^verbatim>\<open>Status\<close> reports the port twice.
\<close>

theorem Status_reports_a_port_twice:
  "map st_Ports (projr (fst (Status family_os api api_recorded)))
     = [[''9090'', ''9090'', ''9091'', ''8080'']]
   \<and> \<not> distinct (concat (map st_Ports (projr (fst (Status family_os api api_recorded)))))"
  by (simp add: family_Status)

subsection \<open>Status on a stale pid record\<close>

text \<open>
  Without a pid record \<^verbatim>\<open>Status\<close> reports the service as stopped and changes nothing.
  With a record whose pid belongs to another program, \<^verbatim>\<open>GetCommand\<close> clears the record
  and \<^verbatim>\<open>Status\<close> reports the service as stopped, without any signal. With a record
  whose pid has no process, \<^verbatim>\<open>GetCommand\<close> clears the record and then looks up the
  process of pid 0: when that lookup fails, \<^verbatim>\<open>Status\<close> returns its error.
\<close>

lemma Status_no_record:
  "files w (getPidPath os \<lparr>Service = c, Pid = 0\<rparr>) = None \<Longrightarrow>
     Status os c w = (Inr [stopped_status c], w)"
  by (simp add: Status_def GetCommand_no_file stopped_status_def)

lemma GetCommand_record:
  assumes "files w (getPidPath os \<lparr>Service = c, Pid = 0\<rparr>) = Some (Inr dat)"
    and "Atoi dat = Inr pid"
    and "os_PidExists os (clock w) (to_int32 pid) = Inr exists"
  shows "GetCommand os c w =
     (let (command, w1) = (if \<not> exists then clearState os \<lparr>Service = c, Pid = pid\<rparr> (tick w)
                           else (\<lparr>Service = c, Pid = pid\<rparr>, tick w))
      in case NewProcess os (clock w1) (to_int32 (Pid command)) of
           Inl e \<Rightarrow> (Inl (WithStack e), tick w1)
         | Inr proc \<Rightarrow>
            (case os_Cmdline os (clock (tick w1)) (proc_Pid proc) of
               Inl e \<Rightarrow> (Inl (WithStack e), tick (tick w1))
             | Inr cmdline \<Rightarrow>
                (if \<not> Contains cmdline (Name c)
                 then (case clearState os command (tick (tick w1)) of
                         (command', w2) \<Rightarrow> (Inr command', w2))
                 else (Inr command, tick (tick w1)))))"
  using assms by (simp add: GetCommand_def Let_def getPidPath_def)

lemma Status_dead_pid:
  assumes "files w (getPidPath os \<lparr>Service = c, Pid = 0\<rparr>) = Some (Inr dat)"
    and "Atoi dat = Inr pid"
    and "os_PidExists os (clock w) (to_int32 pid) = Inr False"
    and "NewProcess os (Suc (clock w)) (to_int32 0) = Inl e"
  shows "fst (Status os c w) = Inl (WithStack (WithStack e))"
    and "files (snd (Status os c w)) (getPidPath os \<lparr>Service = c, Pid = 0\<rparr>) = None"
    and "signals_sent (snd (Status os c w)) = signals_sent w"
  using assms(4)
  by (simp_all add: Status_def GetCommand_record[OF assms(1-3)] clearState_def emit_def
        getPidPath_def signals_sent_def)

lemma Status_reused_pid:
  assumes "files w (getPidPath os \<lparr>Service = c, Pid = 0\<rparr>) = Some (Inr dat)"
    and "Atoi dat = Inr pid"
    and "os_PidExists os (clock w) (to_int32 pid) = Inr True"
    and "NewProcess os (Suc (clock w)) (to_int32 pid) = Inr proc"
    and "os_Cmdline os (Suc (Suc (clock w))) (proc_Pid proc) = Inr cmdline"
    and "\<not> Contains cmdline (Name c)"
  shows "fst (Status os c w) = Inr [stopped_status c]"
    and "files (snd (Status os c w)) (getPidPath os \<lparr>Service = c, Pid = 0\<rparr>) = None"
    and "signals_sent (snd (Status os c w)) = signals_sent w"
  using assms(4-6)
  by (simp_all add: Status_def GetCommand_record[OF assms(1-3)] clearState_def emit_def
        getPidPath_def signals_sent_def stopped_status_def)

text \<open>The recorded pid belongs to another program: the record is cleared, silently.\<close>

lemma reused_pid_Status:
  "fst (Status reused_pid_os api api_recorded) = Inr [stopped_status api]
   \<and> files (snd (Status reused_pid_os api api_recorded)) ''pids/api.pid'' = None
   \<and> trace (snd (Status reused_pid_os api api_recorded)) = [RemoveFile ''pids/api.pid'']"
  by (simp add: Status_def reused_pid_os_def stopped_status_def sample_defs eval_defs)

subsection \<open>Claim C1\<close>

text \<open>
  C1. The pid record of \<open>api\<close> names pid 4242 and no process has that pid.
  \<^verbatim>\<open>GetCommand\<close> clears the record and goes on to \<^verbatim>\<open>process.NewProcess\<close>, which
  fails; \<^verbatim>\<open>Status\<close> returns that error instead of a stopped status.
\<close>

theorem Status_on_dead_pid_returns_error:
  "files api_recorded (getPidPath dead_os \<lparr>Service = api, Pid = 0\<rparr>) = Some (Inr ''4242'')
   \<and> os_PidExists dead_os 0 4242 = Inr False
   \<and> fst (Status dead_os api api_recorded)
       = Inl (WithStack (WithStack (External ''no such process'')))
   \<and> files (snd (Status dead_os api api_recorded)) (getPidPath dead_os \<lparr>Service = api, Pid = 0\<rparr>) = None"
  by (simp add: Status_def dead_os_def sample_defs eval_defs)

subsection \<open>Claim C9\<close>

text \<open>
  C9. On the same system the first call of \<^verbatim>\<open>Status\<close> returns an error, not a
  stopped status (it has cleared the record); the second call returns the stopped status
  and leaves the world as it is.
\<close>

theorem Status_twice_on_dead_pid:
  "isl (fst (Status dead_os api api_recorded))
   \<and> fst (Status dead_os api api_recorded) \<noteq> Inr [stopped_status api]
   \<and> Status dead_os api (snd (Status dead_os api api_recorded))
       = (Inr [stopped_status api], snd (Status dead_os api api_recorded))"
  by (simp add: Status_def dead_os_def stopped_status_def sample_defs eval_defs)

end
